theory Spec2Isabelle
  imports Complex_Main "HOL-Library.Sublist"
begin

section \<open>Values exchanged with the providers\<close>

text \<open>
  The services of \<^verbatim>\<open>app/services/openai_service.py\<close> and
  \<^verbatim>\<open>app/services/report_generator.py\<close> handle Python values that come out of
  \<^verbatim>\<open>response.json()\<close> and build dictionaries from them. One datatype covers both:
  \<open>JNull\<close> is Python's \<^verbatim>\<open>None\<close>, a dictionary is the list of its items (keys are
  distinct in a parsed object; lookup takes the entry of the key).
\<close>

datatype json =
    JNull
  | JBool bool
  | JInt int
  | JFloat real
  | JStr string
  | JArr "json list"
  | JObj "(string \<times> json) list"

text \<open>Python truthiness, as used by \<^verbatim>\<open>if x:\<close> and \<^verbatim>\<open>if not x:\<close>.\<close>

fun truthy :: "json \<Rightarrow> bool" where
  "truthy JNull = False"
| "truthy (JBool b) = b"
| "truthy (JInt n) = (n \<noteq> 0)"
| "truthy (JFloat r) = (r \<noteq> 0)"
| "truthy (JStr s) = (s \<noteq> [])"
| "truthy (JArr xs) = (xs \<noteq> [])"
| "truthy (JObj kvs) = (kvs \<noteq> [])"

fun type_name :: "json \<Rightarrow> string" where
  "type_name JNull = ''NoneType''"
| "type_name (JBool b) = ''bool''"
| "type_name (JInt n) = ''int''"
| "type_name (JFloat r) = ''float''"
| "type_name (JStr s) = ''str''"
| "type_name (JArr xs) = ''list''"
| "type_name (JObj kvs) = ''dict''"

text \<open>
  The exceptions the code can meet. \<open>TransportError\<close> stands for whatever
  \<^verbatim>\<open>httpx\<close> raises when no response arrives; \<open>JSONDecodeError\<close> carries the
  parser's message and \<open>AttributeError\<close> the type and attribute names, because
  \<^verbatim>\<open>get_crypto_metadata\<close> puts \<^verbatim>\<open>str(e)\<close> into its result.
\<close>

datatype py_exception =
    TransportError
  | JSONDecodeError string
  | AttributeError string string
  | KeyError json
  | IndexError
  | TypeError
  | ChatError

fun str_exception :: "py_exception \<Rightarrow> string" where
  "str_exception (JSONDecodeError msg) = msg"
| "str_exception (AttributeError ty attr) =
     [CHR 0x27] @ ty @ [CHR 0x27] @ '' object has no attribute '' @ [CHR 0x27] @ attr @ [CHR 0x27]"
| "str_exception e = []"

text \<open>\<^verbatim>\<open>d.get(key, default)\<close> on a dictionary.\<close>

definition dict_get :: "(string \<times> json) list \<Rightarrow> string \<Rightarrow> json \<Rightarrow> json" where
  "dict_get d k dflt = (case map_of d k of None \<Rightarrow> dflt | Some v \<Rightarrow> v)"

text \<open>\<^verbatim>\<open>x.get(key, default)\<close> on any value: only a dictionary has the method.\<close>

fun py_get :: "json \<Rightarrow> string \<Rightarrow> json \<Rightarrow> py_exception + json" where
  "py_get (JObj d) k dflt = Inr (dict_get d k dflt)"
| "py_get x k dflt = Inl (AttributeError (type_name x) ''get'')"

text \<open>\<^verbatim>\<open>x[0]\<close>.\<close>

fun subscript_zero :: "json \<Rightarrow> py_exception + json" where
  "subscript_zero (JArr []) = Inl IndexError"
| "subscript_zero (JArr (x # xs)) = Inr x"
| "subscript_zero (JStr []) = Inl IndexError"
| "subscript_zero (JStr (c # cs)) = Inr (JStr [c])"
| "subscript_zero (JObj d) = Inl (KeyError (JInt 0))"
| "subscript_zero x = Inl TypeError"

text \<open>\<^verbatim>\<open>x[key]\<close> for a string key.\<close>

fun subscript_key :: "json \<Rightarrow> string \<Rightarrow> py_exception + json" where
  "subscript_key (JObj d) k = (case map_of d k of None \<Rightarrow> Inl (KeyError (JStr k)) | Some v \<Rightarrow> Inr v)"
| "subscript_key x k = Inl TypeError"

text \<open>\<^verbatim>\<open>len(x)\<close>.\<close>

fun py_len :: "json \<Rightarrow> py_exception + nat" where
  "py_len (JArr xs) = Inr (length xs)"
| "py_len (JStr s) = Inr (length s)"
| "py_len (JObj d) = Inr (length d)"
| "py_len x = Inl TypeError"

subsection \<open>Strings\<close>

text \<open>
  Symbols are modelled as ASCII strings: \<^verbatim>\<open>str.upper()\<close> and \<^verbatim>\<open>str.lower()\<close> map
  the 26 letters and leave every other character as it is.
\<close>

definition ascii_lowercase :: string where
  "ascii_lowercase = ''abcdefghijklmnopqrstuvwxyz''"

definition ascii_uppercase :: string where
  "ascii_uppercase = ''ABCDEFGHIJKLMNOPQRSTUVWXYZ''"

definition upper_char :: "char \<Rightarrow> char" where
  "upper_char c = (case map_of (zip ascii_lowercase ascii_uppercase) c of Some d \<Rightarrow> d | None \<Rightarrow> c)"

definition lower_char :: "char \<Rightarrow> char" where
  "lower_char c = (case map_of (zip ascii_uppercase ascii_lowercase) c of Some d \<Rightarrow> d | None \<Rightarrow> c)"

definition upper :: "string \<Rightarrow> string" where
  "upper s = map upper_char s"

definition lower :: "string \<Rightarrow> string" where
  "lower s = map lower_char s"

text \<open>Decimal rendering of a status code inside an f-string.\<close>

fun str_nat :: "nat \<Rightarrow> string" where
  "str_nat n = (if n < 10 then [''0123456789'' ! n]
                else str_nat (n div 10) @ [''0123456789'' ! (n mod 10)])"

definition str_int :: "int \<Rightarrow> string" where
  "str_int i = (if i < 0 then ''-'' @ str_nat (nat (- i)) else str_nat (nat i))"

section \<open>The outside world\<close>

text \<open>
  Every URL the services build is one of four templates; a request records the template
  and the values put into it:
  \<^item> \<open>CoingeckoSearch q\<close>: \<^verbatim>\<open>https://api.coingecko.com/api/v3/search?query={q}\<close>
  \<^item> \<open>CoingeckoCoin token_id\<close>: \<^verbatim>\<open>https://api.coingecko.com/api/v3/coins/{token_id}\<close>
  \<^item> \<open>EthplorerSearch symbol\<close>: \<^verbatim>\<open>https://api.ethplorer.io/search?query={symbol}&apiKey=freekey\<close>
  \<^item> \<open>MoralisPrice address chain\<close>:
    \<^verbatim>\<open>https://deep-index.moralis.io/api/v2.2/erc20/{address}/price?chain={chain}\<close>, sent with
    the \<^verbatim>\<open>X-API-Key\<close> header.
\<close>

datatype request =
    CoingeckoSearch string
  | CoingeckoCoin json
  | EthplorerSearch string
  | MoralisPrice json string

text \<open>
  What the code reads from an \<^verbatim>\<open>httpx\<close> response: \<^verbatim>\<open>status_code\<close>, \<^verbatim>\<open>text\<close>
  and \<^verbatim>\<open>json()\<close>, which either raises \<^verbatim>\<open>JSONDecodeError\<close> (left, with the message)
  or returns the parsed body (right).
\<close>

record response =
  status_code :: int
  resp_text :: string
  resp_json :: "string + json"

text \<open>The prompt of the report generator: the symbol and the three values put into it.\<close>

datatype prompt = Prompt string json json json

text \<open>
  The trace of a run, oldest event first: the requests sent, the pauses taken
  (\<^verbatim>\<open>asyncio.sleep\<close>, in seconds) and the calls to the text generator.
\<close>

datatype event =
    Get request
  | Sleep nat
  | Chat prompt

text \<open>
  The providers are a parameter. What a provider answers may depend on everything that
  happened before (a rate limiter, a mock that answers 429 twice and 200 afterwards), so
  it is a function of the trace and the request; \<open>None\<close> means that the call raises.
\<close>

record env =
  http :: "event list \<Rightarrow> request \<Rightarrow> response option"
  chat :: "event list \<Rightarrow> prompt \<Rightarrow> string option"

subsection \<open>Computations with a trace and exceptions\<close>

type_synonym 'a io = "event list \<Rightarrow> (py_exception + 'a) \<times> event list"

definition io_return :: "'a \<Rightarrow> 'a io" where
  "io_return x = (\<lambda>t. (Inr x, t))"

definition io_raise :: "py_exception \<Rightarrow> 'a io" where
  "io_raise e = (\<lambda>t. (Inl e, t))"

definition io_bind :: "'a io \<Rightarrow> ('a \<Rightarrow> 'b io) \<Rightarrow> 'b io" where
  "io_bind m f = (\<lambda>t. case m t of (Inl e, t') \<Rightarrow> (Inl e, t') | (Inr x, t') \<Rightarrow> f x t')"

text \<open>A pure step that may raise.\<close>

definition io_lift :: "py_exception + 'a \<Rightarrow> 'a io" where
  "io_lift r = (case r of Inl e \<Rightarrow> io_raise e | Inr x \<Rightarrow> io_return x)"

text \<open>\<^verbatim>\<open>try: m except Exception as e: h(e)\<close>.\<close>

definition io_try :: "'a io \<Rightarrow> (py_exception \<Rightarrow> 'a io) \<Rightarrow> 'a io" where
  "io_try m h = (\<lambda>t. case m t of (Inl e, t') \<Rightarrow> h e t' | (Inr x, t') \<Rightarrow> (Inr x, t'))"

text \<open>\<^verbatim>\<open>await client.get(url)\<close>: the request is sent, then a response arrives or not.\<close>

definition http_get :: "env \<Rightarrow> request \<Rightarrow> response io" where
  "http_get E req = (\<lambda>t. case http E t req of
       None \<Rightarrow> (Inl TransportError, t @ [Get req])
     | Some r \<Rightarrow> (Inr r, t @ [Get req]))"

text \<open>\<^verbatim>\<open>await asyncio.sleep(n)\<close>.\<close>

definition sleep :: "nat \<Rightarrow> unit io" where
  "sleep n = (\<lambda>t. (Inr (), t @ [Sleep n]))"

text \<open>\<^verbatim>\<open>response.json()\<close>.\<close>

definition response_json :: "response \<Rightarrow> py_exception + json" where
  "response_json r = (case resp_json r of Inl msg \<Rightarrow> Inl (JSONDecodeError msg) | Inr v \<Rightarrow> Inr v)"

section \<open>Token ID Resolver\<close>

text \<open>
  \<^verbatim>\<open>get_token_id\<close>: the loop \<^verbatim>\<open>for attempt in range(1, retries + 1)\<close> is a recursion
  on the number of attempts left; leaving the loop returns \<^verbatim>\<open>None\<close>.
\<close>

fun get_token_id_loop :: "env \<Rightarrow> string \<Rightarrow> nat \<Rightarrow> json io" where
  "get_token_id_loop E symbol 0 = io_return JNull"
| "get_token_id_loop E symbol (Suc n) =
     io_bind (http_get E (CoingeckoSearch (lower symbol))) (\<lambda>response.
       if status_code response = 429 then
         io_bind (sleep 2) (\<lambda>_. get_token_id_loop E symbol n)
       else if status_code response \<noteq> 200 then io_return JNull
       else
         io_bind (io_lift (response_json response)) (\<lambda>data.
         io_bind (io_lift (py_get data ''coins'' (JArr []))) (\<lambda>coins.
           if \<not> truthy coins then io_return JNull
           else
             io_bind (io_lift (subscript_zero coins)) (\<lambda>first.
             io_bind (io_lift (subscript_key first ''id'')) (\<lambda>token_id.
               io_return token_id)))))"

definition retries :: nat where
  "retries = 3"

definition get_token_id :: "env \<Rightarrow> string \<Rightarrow> json io" where
  "get_token_id E symbol = get_token_id_loop E symbol retries"

section \<open>Contract Resolver\<close>

definition PLATFORM_MAPPING :: "(string \<times> string) list" where
  "PLATFORM_MAPPING =
     [(''eth'', ''ethereum''),
      (''bsc'', ''binance-smart-chain''),
      (''polygon'', ''polygon''),
      (''avalanche'', ''avalanche''),
      (''fantom'', ''fantom'')]"

definition platform_key :: "string \<Rightarrow> string" where
  "platform_key chain = (case map_of PLATFORM_MAPPING chain of None \<Rightarrow> ''ethereum'' | Some k \<Rightarrow> k)"

text \<open>
  \<^verbatim>\<open>_get_contract_from_coingecko\<close>. The query is only logged. The value found under
  the platform key is returned as it is, truthy or not.
\<close>

definition get_contract_from_coingecko :: "env \<Rightarrow> json \<Rightarrow> string \<Rightarrow> string \<Rightarrow> json io" where
  "get_contract_from_coingecko E token_id query chain =
     (if \<not> truthy token_id then io_return JNull
      else
        io_bind (http_get E (CoingeckoCoin token_id)) (\<lambda>response.
          if status_code response \<noteq> 200 then io_return JNull
          else
            io_bind (io_lift (response_json response)) (\<lambda>data.
            io_bind (io_lift (py_get data ''platforms'' (JObj []))) (\<lambda>platforms.
            io_bind (io_lift (py_get platforms (platform_key chain) JNull)) (\<lambda>contract_address.
              io_return contract_address)))))"

section \<open>Contract Resolution Pipeline\<close>

definition weth_address :: string where
  "weth_address = ''0xC02aaa39b223FE8D0A0E5C4F27eAD9083C756Cc2''"

text \<open>The last resort: the whole block sits in \<^verbatim>\<open>try ... except Exception\<close>.\<close>

definition ethplorer_fallback :: "env \<Rightarrow> string \<Rightarrow> json io" where
  "ethplorer_fallback E symbol =
     io_try
       (io_bind (http_get E (EthplorerSearch symbol)) (\<lambda>response.
          if status_code response = 200 then
            io_bind (io_lift (response_json response)) (\<lambda>data.
            io_bind (io_lift (py_get data ''tokens'' JNull)) (\<lambda>tokens.
            io_bind (if truthy tokens
                     then io_bind (io_lift (py_len tokens)) (\<lambda>n. io_return (n > 0))
                     else io_return False) (\<lambda>nonempty.
              if nonempty then
                io_bind (io_lift (subscript_zero tokens)) (\<lambda>first.
                io_bind (io_lift (py_get first ''address'' JNull)) (\<lambda>contract_address.
                  if truthy contract_address then io_return contract_address
                  else io_return JNull))
              else io_return JNull)))
          else io_return JNull))
       (\<lambda>e. io_return JNull)"

text \<open>One resolution attempt for a query: Token ID Resolver, then Contract Resolver.\<close>

definition lookup_query :: "env \<Rightarrow> string \<Rightarrow> string \<Rightarrow> json io" where
  "lookup_query E query chain =
     io_bind (get_token_id E query) (\<lambda>token_id.
       get_contract_from_coingecko E token_id query chain)"

definition wrapped_variants :: "string \<Rightarrow> string list" where
  "wrapped_variants symbol =
     [''wrapped '' @ symbol, ''w'' @ lower symbol, ''wrapped-'' @ lower symbol]"

text \<open>
  The loop \<^verbatim>\<open>for query in wrapped_variants\<close>, followed by what comes after it.
\<close>

fun wrapped_loop :: "env \<Rightarrow> string \<Rightarrow> string \<Rightarrow> string list \<Rightarrow> json io" where
  "wrapped_loop E symbol chain [] = ethplorer_fallback E symbol"
| "wrapped_loop E symbol chain (query # rest) =
     io_bind (lookup_query E query chain) (\<lambda>contract_address.
       if truthy contract_address then io_return contract_address
       else wrapped_loop E symbol chain rest)"

definition get_token_contract :: "env \<Rightarrow> string \<Rightarrow> string \<Rightarrow> json io" where
  "get_token_contract E symbol chain =
     (if upper symbol \<in> set [''ETH'', ''ETHEREUM''] then io_return (JStr weth_address)
      else if upper symbol \<in> set [''SOL'', ''SOLANA'', ''XLM'', ''STELLAR''] then io_return JNull
      else
        io_bind (lookup_query E symbol chain) (\<lambda>contract_address.
          if truthy contract_address then io_return contract_address
          else wrapped_loop E symbol chain (wrapped_variants symbol)))"

section \<open>Price/Metadata Aggregator\<close>

definition get_crypto_price :: "env \<Rightarrow> string \<Rightarrow> string \<Rightarrow> json io" where
  "get_crypto_price E symbol chain =
     io_bind (get_token_contract E symbol chain) (\<lambda>contract_address.
       if \<not> truthy contract_address then
         io_return (JObj [(''error'', JStr (''Contract address not found for token '' @ symbol
            @ '' on chain '' @ chain @ ''. Moralis data unavailable.''))])
       else
         io_bind (http_get E (MoralisPrice contract_address chain)) (\<lambda>response.
           if status_code response \<noteq> 200 then
             io_return (JObj [(''error'', JStr (''Moralis API error. Code: ''
                                  @ str_int (status_code response))),
                              (''response'', JStr (resp_text response))])
           else
             (case resp_json response of
                Inl msg \<Rightarrow>
                  io_return (JObj [(''error'', JStr ''Invalid JSON response from Moralis API''),
                                   (''response'', JStr (resp_text response))])
              | Inr data \<Rightarrow>
                  io_bind (io_lift (py_get data ''usdPrice'' (JStr ''N/A''))) (\<lambda>current_price.
                  io_bind (io_lift (py_get data ''priceChange'' (JStr ''N/A''))) (\<lambda>price_change_24h.
                  io_bind (io_lift (py_get data ''priceChangePercent'' (JStr ''N/A''))) (\<lambda>price_change_percent.
                  io_bind (io_lift (py_get data ''highPrice'' (JStr ''N/A''))) (\<lambda>high_24h.
                  io_bind (io_lift (py_get data ''lowPrice'' (JStr ''N/A''))) (\<lambda>low_24h.
                  io_bind (io_lift (py_get data ''volume'' (JStr ''N/A''))) (\<lambda>volume.
                    io_return (JObj
                      [(''symbol'', JStr symbol),
                       (''current_price'', current_price),
                       (''price_change_24h'', price_change_24h),
                       (''price_change_percent'', price_change_percent),
                       (''high_24h'', high_24h),
                       (''low_24h'', low_24h),
                       (''volume'', volume),
                       (''source'', JStr ''Moralis''),
                       (''raw_response'', data)]))))))))))"

text \<open>
  \<^verbatim>\<open>get_crypto_metadata\<close>: here the \<^verbatim>\<open>try\<close> block catches every exception, and
  the record is returned only when its \<^verbatim>\<open>tokenAddress\<close> is truthy.
\<close>

definition metadata_fields :: "string list" where
  "metadata_fields =
     [''tokenName'', ''tokenSymbol'', ''tokenLogo'', ''tokenDecimals'', ''nativePrice'',
      ''usdPrice'', ''exchangeName'', ''exchangeAddress'', ''tokenAddress'']"

fun build_result :: "json \<Rightarrow> string list \<Rightarrow> py_exception + (string \<times> json) list" where
  "build_result data [] = Inr []"
| "build_result data (k # ks) =
     (case py_get data k JNull of
        Inl e \<Rightarrow> Inl e
      | Inr v \<Rightarrow> (case build_result data ks of Inl e \<Rightarrow> Inl e | Inr kvs \<Rightarrow> Inr ((k, v) # kvs)))"

definition get_crypto_metadata :: "env \<Rightarrow> string \<Rightarrow> string \<Rightarrow> json io" where
  "get_crypto_metadata E symbol chain =
     io_bind (get_token_contract E symbol chain) (\<lambda>contract_address.
       if \<not> truthy contract_address then
         io_return (JObj [(''error'', JStr (''Unable to retrieve contract address for token ''
            @ symbol @ '' on chain '' @ chain))])
       else
         io_bind (http_get E (MoralisPrice contract_address chain)) (\<lambda>response.
           if status_code response \<noteq> 200 then
             io_return (JObj [(''error'', JStr (''Moralis API error. Code: ''
                                  @ str_int (status_code response))),
                              (''response'', JStr (resp_text response))])
           else
             io_try
               (io_bind (io_lift (response_json response)) (\<lambda>data.
                io_bind (io_lift (build_result data metadata_fields)) (\<lambda>result.
                io_bind (io_lift (subscript_key (JObj result) ''tokenAddress'')) (\<lambda>token_address.
                  if truthy token_address then io_return (JObj result)
                  else io_return (JObj [(''error'', JStr ''Contract address not found'')])))))
               (\<lambda>e. io_return (JObj [(''error'', JStr (''JSON processing error: ''
                                         @ str_exception e))]))))"

section \<open>Report Synthesizer\<close>

text \<open>
  \<^verbatim>\<open>client.chat.completions.create(...)\<close> followed by reading the first choice's
  content: the text generator answers with the summary, or the step raises.
\<close>

definition chat_completion :: "env \<Rightarrow> prompt \<Rightarrow> string io" where
  "chat_completion E p = (\<lambda>t. case chat E t p of
       None \<Rightarrow> (Inl ChatError, t @ [Chat p])
     | Some s \<Rightarrow> (Inr s, t @ [Chat p]))"

text \<open>
  \<^verbatim>\<open>generate_crypto_report\<close>: \<^verbatim>\<open>get_crypto_price(symbol)\<close> runs with the default
  chain. The prompt reads three entries with \<^verbatim>\<open>data[...]\<close>; the report reads them
  with \<^verbatim>\<open>data.get(..., default)\<close>.
\<close>

definition generate_crypto_report :: "env \<Rightarrow> string \<Rightarrow> json io" where
  "generate_crypto_report E symbol =
     io_bind (get_crypto_price E symbol ''eth'') (\<lambda>data.
     io_bind (io_lift (subscript_key data ''current_price'')) (\<lambda>p.
     io_bind (io_lift (subscript_key data ''price_change_percent'')) (\<lambda>c.
     io_bind (io_lift (subscript_key data ''volume'')) (\<lambda>v.
     io_bind (chat_completion E (Prompt symbol p c v)) (\<lambda>report_summary.
     io_bind (io_lift (py_get data ''current_price'' (JStr ''N/A''))) (\<lambda>current_price.
     io_bind (io_lift (py_get data ''price_change_percent'' (JStr ''N/A''))) (\<lambda>price_change_percent.
     io_bind (io_lift (py_get data ''high_24h'' (JStr ''N/A''))) (\<lambda>high_24h.
     io_bind (io_lift (py_get data ''low_24h'' (JStr ''N/A''))) (\<lambda>low_24h.
     io_bind (io_lift (py_get data ''volume'' (JStr ''N/A''))) (\<lambda>volume.
     io_bind (io_lift (py_get data ''source'' (JStr ''Unknown''))) (\<lambda>source.
       io_return (JObj
         [(''symbol'', JStr symbol),
          (''current_price'', current_price),
          (''price_change_percent'', price_change_percent),
          (''high_24h'', high_24h),
          (''low_24h'', low_24h),
          (''volume'', volume),
          (''source'', source),
          (''report_summary'', JStr report_summary)]))))))))))))"

section \<open>Reading a trace\<close>

fun is_search :: "event \<Rightarrow> bool" where
  "is_search (Get (CoingeckoSearch q)) = True"
| "is_search e = False"

fun is_coin :: "event \<Rightarrow> bool" where
  "is_coin (Get (CoingeckoCoin i)) = True"
| "is_coin e = False"

fun is_ethplorer :: "event \<Rightarrow> bool" where
  "is_ethplorer (Get (EthplorerSearch s)) = True"
| "is_ethplorer e = False"

fun is_moralis :: "event \<Rightarrow> bool" where
  "is_moralis (Get (MoralisPrice a c)) = True"
| "is_moralis e = False"

fun is_chat :: "event \<Rightarrow> bool" where
  "is_chat (Chat p) = True"
| "is_chat e = False"

definition count :: "(event \<Rightarrow> bool) \<Rightarrow> event list \<Rightarrow> nat" where
  "count P t = length (filter P t)"

text \<open>The queries searched for and the token ids asked about, in the order of the trace.\<close>

fun search_query :: "event \<Rightarrow> string list" where
  "search_query (Get (CoingeckoSearch q)) = [q]"
| "search_query e = []"

definition search_queries :: "event list \<Rightarrow> string list" where
  "search_queries t = concat (map search_query t)"

fun coin_id :: "event \<Rightarrow> json list" where
  "coin_id (Get (CoingeckoCoin i)) = [i]"
| "coin_id e = []"

definition coin_ids :: "event list \<Rightarrow> json list" where
  "coin_ids t = concat (map coin_id t)"

text \<open>
  \<open>emits P m\<close>: whatever the trace before, \<open>m\<close> only appends events, and each of
  them satisfies \<open>P\<close>.
\<close>

definition emits :: "(event \<Rightarrow> bool) \<Rightarrow> 'a io \<Rightarrow> bool" where
  "emits P m = (\<forall>t. \<exists>evs. snd (m t) = t @ evs \<and> list_all P evs)"

text \<open>
  \<open>returns Q m\<close>: whenever \<open>m\<close> returns a value (it does not raise), the value
  satisfies \<open>Q\<close>.
\<close>

definition returns :: "('a \<Rightarrow> bool) \<Rightarrow> 'a io \<Rightarrow> bool" where
  "returns Q m = (\<forall>t x. fst (m t) = Inr x \<longrightarrow> Q x)"

text \<open>A search provider that never answers 429.\<close>

definition never_rate_limited :: "env \<Rightarrow> bool" where
  "never_rate_limited E = (\<forall>t q r. http E t (CoingeckoSearch q) = Some r \<longrightarrow> status_code r \<noteq> 429)"

text \<open>The seconds spent in pauses.\<close>

fun pause :: "event \<Rightarrow> nat" where
  "pause (Sleep n) = n"
| "pause e = 0"

definition waited :: "event list \<Rightarrow> nat" where
  "waited t = sum_list (map pause t)"

text \<open>What a provider answers to a request at a point of the run.\<close>

definition answers_429 :: "env \<Rightarrow> event list \<Rightarrow> request \<Rightarrow> bool" where
  "answers_429 E t req = (case http E t req of None \<Rightarrow> False | Some r \<Rightarrow> status_code r = 429)"

text \<open>
  Status 200 with results: the body is an object whose \<^verbatim>\<open>coins\<close> is a list that
  starts with an object of id \<open>v\<close>.
\<close>

definition answers_200_with_id :: "env \<Rightarrow> event list \<Rightarrow> request \<Rightarrow> json \<Rightarrow> bool" where
  "answers_200_with_id E t req v =
     (case http E t req of
        None \<Rightarrow> False
      | Some r \<Rightarrow> status_code r = 200 \<and>
          (case resp_json r of
             Inr (JObj d) \<Rightarrow>
               (case map_of d ''coins'' of
                  Some (JArr (JObj c # cs)) \<Rightarrow> map_of c ''id'' = Some v
                | _ \<Rightarrow> False)
           | _ \<Rightarrow> False))"

section \<open>Provider behaviours used as examples\<close>

definition plain_response :: "int \<Rightarrow> string + json \<Rightarrow> response" where
  "plain_response code body = \<lparr>status_code = code, resp_text = [], resp_json = body\<rparr>"

text \<open>Every request gets the same response; the text generator is down.\<close>

definition constant_provider :: "response \<Rightarrow> env" where
  "constant_provider r = \<lparr>http = (\<lambda>t req. Some r), chat = (\<lambda>t p. None)\<rparr>"

definition bitcoin_found :: json where
  "bitcoin_found = JObj [(''coins'', JArr [JObj [(''id'', JStr ''bitcoin'')]])]"

text \<open>A search provider that answers 429 to the first two searches and 200 afterwards.\<close>

definition rate_limited_twice :: env where
  "rate_limited_twice =
     \<lparr>http = (\<lambda>t req. if count is_search t < 2
                        then Some (plain_response 429 (Inl ''Expecting value''))
                        else Some (plain_response 200 (Inr bitcoin_found))),
      chat = (\<lambda>t p. None)\<rparr>"

text \<open>
  A provider where exactly one query resolves: every search finds a token whose id is
  the query; the token \<open>good\<close> has an address on Ethereum, the token \<^verbatim>\<open>btc\<close> has no
  address on any platform, and every other token has the empty string there. The last
  resort and the pricing provider do not respond.
\<close>

definition wbtc_address :: string where
  "wbtc_address = ''0x2260FAC5E5542a773Aa44fBCfeDf7C193bc2C599''"

definition resolves_only :: "string \<Rightarrow> env" where
  "resolves_only good =
     \<lparr>http = (\<lambda>t req. case req of
          CoingeckoSearch q \<Rightarrow>
            Some (plain_response 200 (Inr (JObj [(''coins'', JArr [JObj [(''id'', JStr q)]])])))
        | CoingeckoCoin i \<Rightarrow>
            (if i = JStr good then
               Some (plain_response 200 (Inr (JObj [(''platforms'',
                 JObj [(''ethereum'', JStr wbtc_address)])])))
             else if i = JStr ''btc'' then
               Some (plain_response 200 (Inr (JObj [(''platforms'', JObj [])])))
             else
               Some (plain_response 200 (Inr (JObj [(''platforms'',
                 JObj [(''ethereum'', JStr [])])]))))
        | EthplorerSearch s \<Rightarrow> None
        | MoralisPrice a c \<Rightarrow> None),
      chat = (\<lambda>t p. None)\<rparr>"

text \<open>No request gets a response.\<close>

definition unreachable_provider :: env where
  "unreachable_provider = \<lparr>http = (\<lambda>t req. None), chat = (\<lambda>t p. None)\<rparr>"

text \<open>A pricing payload without \<^verbatim>\<open>volume\<close> (and without \<^verbatim>\<open>tokenAddress\<close>).\<close>

definition price_payload :: json where
  "price_payload = JObj [(''usdPrice'', JInt 65000), (''priceChangePercent'', JFloat 2.5)]"

text \<open>A pricing payload with a token address.\<close>

definition metadata_payload :: json where
  "metadata_payload =
     JObj [(''tokenName'', JStr ''Wrapped Ether''), (''usdPrice'', JFloat 2.5),
           (''tokenAddress'', JStr ''0xc02aaa39b223fe8d0a0e5c4f27ead9083c756cc2'')]"

section \<open>Basic facts\<close>

lemma io_bind_return [simp]: "io_bind (io_return x) f t = f x t"
  by (simp add: io_bind_def io_return_def)

lemma io_bind_raise [simp]: "io_bind (io_raise e) f t = (Inl e, t)"
  by (simp add: io_bind_def io_raise_def)

lemma io_bind_Inr: "m t = (Inr x, t') \<Longrightarrow> io_bind m f t = f x t'"
  by (simp add: io_bind_def)

lemma io_bind_Inl: "m t = (Inl e, t') \<Longrightarrow> io_bind m f t = (Inl e, t')"
  by (simp add: io_bind_def)

lemma io_lift_Inr [simp]: "io_lift (Inr x) = io_return x"
  by (simp add: io_lift_def)

lemma io_lift_Inl [simp]: "io_lift (Inl e) = io_raise e"
  by (simp add: io_lift_def)

lemma io_return_apply [simp]: "io_return x t = (Inr x, t)"
  by (simp add: io_return_def)

lemma io_raise_apply [simp]: "io_raise e t = (Inl e, t)"
  by (simp add: io_raise_def)

lemmas case_defs = upper_def upper_char_def lower_def lower_char_def ascii_lowercase_def ascii_uppercase_def

subsection \<open>What a computation appends to the trace\<close>

lemma emitsD: "emits P m \<Longrightarrow> m t = (r, t') \<Longrightarrow> \<exists>evs. t' = t @ evs \<and> list_all P evs"
  unfolding emits_def by (metis snd_conv)

lemma emits_return: "emits P (io_return x)"
  by (simp add: emits_def)

lemma emits_raise: "emits P (io_raise e)"
  by (simp add: emits_def)

lemma emits_lift: "emits P (io_lift r)"
  by (cases r) (simp_all add: emits_return emits_raise)

lemma emits_bind:
  assumes "emits P m" and "\<And>x. emits P (f x)"
  shows "emits P (io_bind m f)"
  unfolding emits_def
proof
  fix t
  obtain r t1 where m: "m t = (r, t1)" by (cases "m t")
  from emitsD [OF assms(1) m] obtain evs where e1: "t1 = t @ evs" "list_all P evs" by blast
  show "\<exists>evs. snd (io_bind m f t) = t @ evs \<and> list_all P evs"
  proof (cases r)
    case (Inl e)
    with m e1 show ?thesis by (auto simp: io_bind_def)
  next
    case (Inr x)
    obtain r2 t2 where f: "f x t1 = (r2, t2)" by (cases "f x t1")
    from emitsD [OF assms(2) f] obtain evs2 where e2: "t2 = t1 @ evs2" "list_all P evs2" by blast
    from Inr m f e1 e2 show ?thesis by (auto simp: io_bind_def)
  qed
qed

lemma emits_try:
  assumes "emits P m" and "\<And>e. emits P (h e)"
  shows "emits P (io_try m h)"
  unfolding emits_def
proof
  fix t
  obtain r t1 where m: "m t = (r, t1)" by (cases "m t")
  from emitsD [OF assms(1) m] obtain evs where e1: "t1 = t @ evs" "list_all P evs" by blast
  show "\<exists>evs. snd (io_try m h t) = t @ evs \<and> list_all P evs"
  proof (cases r)
    case (Inr x)
    with m e1 show ?thesis by (auto simp: io_try_def)
  next
    case (Inl e)
    obtain r2 t2 where f: "h e t1 = (r2, t2)" by (cases "h e t1")
    from emitsD [OF assms(2) f] obtain evs2 where e2: "t2 = t1 @ evs2" "list_all P evs2" by blast
    from Inl m f e1 e2 show ?thesis by (auto simp: io_try_def)
  qed
qed

lemma emits_if: "emits P a \<Longrightarrow> emits P b \<Longrightarrow> emits P (if c then a else b)"
  by simp

lemma emits_http_get: "P (Get req) \<Longrightarrow> emits P (http_get E req)"
  by (auto simp: emits_def http_get_def split: option.splits)

lemma emits_sleep: "P (Sleep n) \<Longrightarrow> emits P (sleep n)"
  by (simp add: emits_def sleep_def)

lemmas emits_intros = emits_bind emits_try emits_if emits_return emits_raise emits_lift emits_http_get emits_sleep

lemma emits_get_token_id_loop:
  "P (Get (CoingeckoSearch (lower symbol))) \<Longrightarrow> P (Sleep 2) \<Longrightarrow> emits P (get_token_id_loop E symbol n)"
  by (induction n) (auto intro!: emits_intros)

lemma emits_get_token_id:
  "P (Get (CoingeckoSearch (lower symbol))) \<Longrightarrow> P (Sleep 2) \<Longrightarrow> emits P (get_token_id E symbol)"
  by (simp add: get_token_id_def emits_get_token_id_loop)

lemma emits_get_contract:
  "P (Get (CoingeckoCoin token_id)) \<Longrightarrow> emits P (get_contract_from_coingecko E token_id query chain)"
  unfolding get_contract_from_coingecko_def by (auto intro!: emits_intros)

lemma emits_lookup_query:
  "(\<And>q. P (Get (CoingeckoSearch q))) \<Longrightarrow> (\<And>i. P (Get (CoingeckoCoin i))) \<Longrightarrow> P (Sleep 2)
     \<Longrightarrow> emits P (lookup_query E query chain)"
  unfolding lookup_query_def by (auto intro!: emits_intros emits_get_token_id emits_get_contract)

lemma emits_ethplorer:
  "P (Get (EthplorerSearch symbol)) \<Longrightarrow> emits P (ethplorer_fallback E symbol)"
  unfolding ethplorer_fallback_def by (auto intro!: emits_intros)

lemma emits_wrapped_loop:
  "(\<And>q. P (Get (CoingeckoSearch q))) \<Longrightarrow> (\<And>i. P (Get (CoingeckoCoin i))) \<Longrightarrow> P (Sleep 2)
     \<Longrightarrow> P (Get (EthplorerSearch symbol)) \<Longrightarrow> emits P (wrapped_loop E symbol chain qs)"
  by (induction qs) (auto intro!: emits_intros emits_lookup_query emits_ethplorer)

lemma emits_get_token_contract:
  "(\<And>q. P (Get (CoingeckoSearch q))) \<Longrightarrow> (\<And>i. P (Get (CoingeckoCoin i))) \<Longrightarrow> P (Sleep 2)
     \<Longrightarrow> P (Get (EthplorerSearch symbol)) \<Longrightarrow> emits P (get_token_contract E symbol chain)"
  unfolding get_token_contract_def
  by (intro emits_intros emits_lookup_query emits_wrapped_loop) auto

lemma count_append: "count P (t @ evs) = count P t + count P evs"
  by (simp add: count_def)

lemma count_none: "list_all (\<lambda>e. \<not> P e) evs \<Longrightarrow> count P evs = 0"
  by (induction evs) (auto simp: count_def)

lemma no_moralis_in_resolution:
  assumes "get_token_contract E symbol chain t = (r, t')"
  shows "count is_moralis t' = count is_moralis t"
proof -
  have "emits (\<lambda>e. \<not> is_moralis e) (get_token_contract E symbol chain)"
    by (rule emits_get_token_contract) simp_all
  from emitsD [OF this assms] obtain evs where "t' = t @ evs" "list_all (\<lambda>e. \<not> is_moralis e) evs"
    by blast
  then show ?thesis by (simp add: count_append count_none)
qed

lemma bind_http_get_Some:
  "http E t req = Some r \<Longrightarrow> io_bind (http_get E req) f t = f r (t @ [Get req])"
  by (simp add: io_bind_def http_get_def)

lemma bind_http_get_None:
  "http E t req = None \<Longrightarrow> io_bind (http_get E req) f t = (Inl TransportError, t @ [Get req])"
  by (simp add: io_bind_def http_get_def)

lemma bind_sleep: "io_bind (sleep n) f t = f () (t @ [Sleep n])"
  by (simp add: io_bind_def sleep_def)

lemma emits_False: "emits (\<lambda>e. False) m \<Longrightarrow> snd (m t) = t"
proof -
  assume "emits (\<lambda>e. False) m"
  then obtain evs where "snd (m t) = t @ evs" "list_all (\<lambda>e. False) evs"
    unfolding emits_def by blast
  then show ?thesis by (cases evs) simp_all
qed

lemma get_token_id_loop_trace:
  "\<exists>k\<le>n. snd (get_token_id_loop E symbol n t)
       = t @ concat (replicate k [Get (CoingeckoSearch (lower symbol)), Sleep 2])
           @ (if k < n then [Get (CoingeckoSearch (lower symbol))] else [])"
proof (induction n arbitrary: t)
  case 0
  then show ?case by simp
next
  case (Suc n)
  let ?q = "CoingeckoSearch (lower symbol)"
  show ?case
  proof (cases "\<exists>r. http E t ?q = Some r \<and> status_code r = 429")
    case True
    then have step: "get_token_id_loop E symbol (Suc n) t = get_token_id_loop E symbol n (t @ [Get ?q, Sleep 2])"
      by (auto simp: bind_http_get_Some bind_sleep)
    from Suc [of "t @ [Get ?q, Sleep 2]"] obtain k where
      k: "k \<le> n" "snd (get_token_id_loop E symbol n (t @ [Get ?q, Sleep 2]))
            = (t @ [Get ?q, Sleep 2]) @ concat (replicate k [Get ?q, Sleep 2]) @ (if k < n then [Get ?q] else [])"
      by blast
    show ?thesis
      by (rule exI [of _ "Suc k"]) (use k step in simp)
  next
    case False
    have "snd (get_token_id_loop E symbol (Suc n) t) = t @ [Get ?q]"
    proof (cases "http E t ?q")
      case None
      then show ?thesis by (simp add: bind_http_get_None)
    next
      case (Some r)
      with False have ne: "status_code r \<noteq> 429" by simp
      show ?thesis
        using ne by (simp add: bind_http_get_Some [OF Some]) (auto intro!: emits_False emits_intros)
    qed
    then show ?thesis
      by (intro exI [of _ 0]) simp
  qed
qed

section \<open>Short-circuits of the pipeline\<close>

text \<open>
  C3. For every symbol whose uppercase form is "ETH" or "ETHEREUM", every chain and every
  behaviour of the providers, \<^verbatim>\<open>get_token_contract\<close> returns the fixed address
  0xC02aaa39b223FE8D0A0E5C4F27eAD9083C756Cc2 and leaves the trace as it was: no request
  is sent.
\<close>

theorem native_asset_short_circuit:
  "upper symbol = ''ETH'' \<or> upper symbol = ''ETHEREUM'' \<Longrightarrow>
     get_token_contract E symbol chain t
       = (Inr (JStr ''0xC02aaa39b223FE8D0A0E5C4F27eAD9083C756Cc2''), t)"
  by (auto simp: get_token_contract_def weth_address_def)

theorem native_asset_short_circuit_witness:
  "(upper ''eThereum'' = ''ETH'' \<or> upper ''eThereum'' = ''ETHEREUM'')
   \<and> get_token_contract unreachable_provider ''eThereum'' ''bsc'' []
       = (Inr (JStr ''0xC02aaa39b223FE8D0A0E5C4F27eAD9083C756Cc2''), [])"
proof -
  have h: "upper ''eThereum'' = ''ETH'' \<or> upper ''eThereum'' = ''ETHEREUM''"
    by (simp add: upper_def upper_char_def ascii_lowercase_def ascii_uppercase_def)
  show ?thesis
    using h native_asset_short_circuit [OF h, of unreachable_provider "''bsc''" "[]"] by simp
qed

section \<open>Retries of the Token ID Resolver\<close>

lemma loop_429:
  "answers_429 E t (CoingeckoSearch (lower symbol)) \<Longrightarrow>
   get_token_id_loop E symbol (Suc n) t
     = get_token_id_loop E symbol n (t @ [Get (CoingeckoSearch (lower symbol)), Sleep 2])"
  by (auto simp: answers_429_def bind_http_get_Some bind_sleep split: option.splits)

lemma answers_200_with_idD:
  assumes "answers_200_with_id E t req v"
  obtains r d c cs where "http E t req = Some r" "status_code r = 200" "resp_json r = Inr (JObj d)"
    "map_of d ''coins'' = Some (JArr (JObj c # cs))" "map_of c ''id'' = Some v"
proof -
  from assms obtain r where r: "http E t req = Some r" "status_code r = 200"
    and rest: "(case resp_json r of
             Inr (JObj d) \<Rightarrow>
               (case map_of d ''coins'' of
                  Some (JArr (JObj c # cs)) \<Rightarrow> map_of c ''id'' = Some v
                | _ \<Rightarrow> False)
           | _ \<Rightarrow> False)"
    by (auto simp: answers_200_with_id_def split: option.splits)
  from rest obtain d where d: "resp_json r = Inr (JObj d)"
    and rest2: "(case map_of d ''coins'' of
                  Some (JArr (JObj c # cs)) \<Rightarrow> map_of c ''id'' = Some v
                | _ \<Rightarrow> False)"
    by (auto split: sum.splits json.splits)
  from rest2 obtain c cs where "map_of d ''coins'' = Some (JArr (JObj c # cs))" "map_of c ''id'' = Some v"
    by (auto split: option.splits json.splits list.splits)
  with r d that show thesis by blast
qed

lemma loop_200:
  assumes "answers_200_with_id E t (CoingeckoSearch (lower symbol)) v"
  shows "get_token_id_loop E symbol (Suc n) t = (Inr v, t @ [Get (CoingeckoSearch (lower symbol))])"
proof -
  from assms obtain r d c cs where
    "http E t (CoingeckoSearch (lower symbol)) = Some r" "status_code r = 200"
    "resp_json r = Inr (JObj d)"
    "map_of d ''coins'' = Some (JArr (JObj c # cs))" "map_of c ''id'' = Some v"
    by (rule answers_200_with_idD)
  then show ?thesis
    by (simp add: bind_http_get_Some response_json_def dict_get_def)
qed

text \<open>
  C2. \<^verbatim>\<open>get_token_id\<close> searches for the lowercased symbol. Whatever the provider
  does, the run is \<open>k \<le> 3\<close> rounds of a search answered 429 and a pause of 2 seconds,
  followed by one more search when \<open>k < 3\<close>: at most 3 searches, with one 2-second
  pause between two of them. When all three searches are answered 429 the result is
  \<^verbatim>\<open>None\<close>, not an exception (a third pause follows the third 429). When the first
  two are answered 429 and the third 200 with results, the result is the id of the first
  result, found by the third search after 2 pauses of 2 seconds.
\<close>

theorem token_id_rate_limit_retry:
  "let q = CoingeckoSearch (lower symbol);
       t1 = t @ [Get q, Sleep 2];
       t2 = t1 @ [Get q, Sleep 2]
   in (\<exists>k\<le>3. snd (get_token_id E symbol t)
            = t @ concat (replicate k [Get q, Sleep 2]) @ (if k < 3 then [Get q] else []))
    \<and> (answers_429 E t q \<and> answers_429 E t1 q \<and> answers_429 E t2 q \<longrightarrow>
         get_token_id E symbol t = (Inr JNull, t2 @ [Get q, Sleep 2]))
    \<and> (answers_429 E t q \<and> answers_429 E t1 q \<and> answers_200_with_id E t2 q v \<longrightarrow>
         get_token_id E symbol t = (Inr v, t2 @ [Get q])
         \<and> waited (t2 @ [Get q]) = waited t + 2 * 2)"
proof -
  let ?q = "CoingeckoSearch (lower symbol)"
  have shape: "\<exists>k\<le>3. snd (get_token_id E symbol t)
            = t @ concat (replicate k [Get ?q, Sleep 2]) @ (if k < 3 then [Get ?q] else [])"
    using get_token_id_loop_trace [of 3 E symbol t] by (simp add: get_token_id_def retries_def)
  have three: "get_token_id E symbol t = get_token_id_loop E symbol (Suc (Suc (Suc 0))) t"
    by (simp add: get_token_id_def retries_def numeral_3_eq_3)
  have exhausted: "get_token_id E symbol t = (Inr JNull, t @ [Get ?q, Sleep 2, Get ?q, Sleep 2, Get ?q, Sleep 2])"
    if "answers_429 E t ?q" "answers_429 E (t @ [Get ?q, Sleep 2]) ?q"
       "answers_429 E (t @ [Get ?q, Sleep 2, Get ?q, Sleep 2]) ?q"
    using that by (simp add: three loop_429 del: get_token_id_loop.simps(2))
  have third: "get_token_id E symbol t = (Inr v, t @ [Get ?q, Sleep 2, Get ?q, Sleep 2, Get ?q])"
    if "answers_429 E t ?q" "answers_429 E (t @ [Get ?q, Sleep 2]) ?q"
       "answers_200_with_id E (t @ [Get ?q, Sleep 2, Get ?q, Sleep 2]) ?q v"
    using that by (simp add: three loop_429 loop_200 del: get_token_id_loop.simps(2))
  have pauses: "waited (t @ [Get ?q, Sleep 2, Get ?q, Sleep 2, Get ?q]) = waited t + 2 * 2"
    by (simp add: waited_def)
  show ?thesis
    unfolding Let_def using shape exhausted third pauses by simp
qed

theorem token_id_rate_limit_retry_witness:
  "get_token_id rate_limited_twice ''BTC'' []
     = (Inr (JStr ''bitcoin''),
        [Get (CoingeckoSearch ''btc''), Sleep 2, Get (CoingeckoSearch ''btc''), Sleep 2,
         Get (CoingeckoSearch ''btc'')])
   \<and> get_token_id (constant_provider (plain_response 429 (Inl []))) ''BTC'' []
     = (Inr JNull,
        [Get (CoingeckoSearch ''btc''), Sleep 2, Get (CoingeckoSearch ''btc''), Sleep 2,
         Get (CoingeckoSearch ''btc''), Sleep 2])"
proof -
  have l: "lower ''BTC'' = ''btc''"
    by (simp add: case_defs)
  show ?thesis
    using token_id_rate_limit_retry [of "''BTC''" "[]" rate_limited_twice "JStr ''bitcoin''"]
      token_id_rate_limit_retry [of "''BTC''" "[]" "constant_provider (plain_response 429 (Inl []))" JNull]
    by (simp add: Let_def l answers_429_def answers_200_with_id_def rate_limited_twice_def
          constant_provider_def plain_response_def bitcoin_found_def count_def)
qed

text \<open>
  C4. For every symbol whose uppercase form is "SOL", "SOLANA", "XLM" or "STELLAR", every
  chain and every behaviour of the providers, \<^verbatim>\<open>get_token_contract\<close> returns
  \<^verbatim>\<open>None\<close> and leaves the trace as it was: no request is sent.
\<close>

theorem unsupported_asset_short_circuit:
  "upper symbol \<in> {''SOL'', ''SOLANA'', ''XLM'', ''STELLAR''} \<Longrightarrow>
     get_token_contract E symbol chain t = (Inr JNull, t)"
  by (auto simp: get_token_contract_def)

theorem unsupported_asset_short_circuit_witness:
  "upper ''Stellar'' \<in> {''SOL'', ''SOLANA'', ''XLM'', ''STELLAR''}
   \<and> get_token_contract unreachable_provider ''Stellar'' ''polygon'' [] = (Inr JNull, [])"
proof -
  have h: "upper ''Stellar'' \<in> {''SOL'', ''SOLANA'', ''XLM'', ''STELLAR''}"
    by (simp add: case_defs)
  show ?thesis
    using h unsupported_asset_short_circuit [OF h, of unreachable_provider "''polygon''" "[]"] by simp
qed

section \<open>The aggregator behind the pipeline\<close>

lemma price_error_mentions:
  "sublist ''contract address not found''
     (lower (''Contract address not found for token '' @ symbol @ '' on chain '' @ chain
               @ ''. Moralis data unavailable.''))"
proof -
  have "lower (''Contract address not found for token '' @ symbol @ '' on chain '' @ chain
               @ ''. Moralis data unavailable.'')
        = [] @ ''contract address not found'' @ lower ('' for token '' @ symbol @ '' on chain '' @ chain
               @ ''. Moralis data unavailable.'')"
    by (simp add: case_defs)
  then show ?thesis
    unfolding sublist_def by blast
qed

text \<open>
  C5. When the pipeline returns a falsy address (it is \<^verbatim>\<open>None\<close> then),
  \<^verbatim>\<open>get_crypto_price\<close> returns the dictionary whose only entry is an \<^verbatim>\<open>error\<close>
  message that, read case-insensitively, contains "contract address not found";
  \<^verbatim>\<open>get_crypto_metadata\<close> returns a dictionary whose only entry is the \<^verbatim>\<open>error\<close>
  message "Unable to retrieve contract address for token ... on chain ...". In both cases
  the trace is the one the pipeline left, which holds no more pricing requests than
  before the call.
\<close>

theorem absent_contract_gates_pricing:
  assumes "get_token_contract E symbol chain t = (Inr a, t')" and "\<not> truthy a"
  shows "get_crypto_price E symbol chain t
           = (Inr (JObj [(''error'', JStr (''Contract address not found for token '' @ symbol
                 @ '' on chain '' @ chain @ ''. Moralis data unavailable.''))]), t')
       \<and> sublist ''contract address not found''
           (lower (''Contract address not found for token '' @ symbol @ '' on chain '' @ chain
                     @ ''. Moralis data unavailable.''))
       \<and> get_crypto_metadata E symbol chain t
           = (Inr (JObj [(''error'', JStr (''Unable to retrieve contract address for token ''
                 @ symbol @ '' on chain '' @ chain))]), t')
       \<and> count is_moralis t' = count is_moralis t"
  using assms no_moralis_in_resolution [OF assms(1)] price_error_mentions [of symbol chain]
  by (simp add: get_crypto_price_def get_crypto_metadata_def io_bind_Inr [of "get_token_contract E symbol chain"])

lemmas run_defs = get_token_contract_def lookup_query_def get_token_id_def retries_def numeral_3_eq_3
  wrapped_variants_def get_contract_from_coingecko_def ethplorer_fallback_def io_bind_def io_try_def
  http_get_def sleep_def response_json_def dict_get_def

lemma down_resolution:
  "get_token_contract (constant_provider (plain_response 503 (Inl []))) ''BTC'' ''eth'' []
     = (Inr JNull, [Get (CoingeckoSearch ''btc''), Get (CoingeckoSearch ''wrapped btc''),
          Get (CoingeckoSearch ''wbtc''), Get (CoingeckoSearch ''wrapped-btc''),
          Get (EthplorerSearch ''BTC'')])"
  by (simp add: run_defs constant_provider_def plain_response_def case_defs)

theorem absent_contract_gates_pricing_witness:
  "\<not> truthy JNull
   \<and> get_token_contract (constant_provider (plain_response 503 (Inl []))) ''BTC'' ''eth'' []
     = (Inr JNull, [Get (CoingeckoSearch ''btc''), Get (CoingeckoSearch ''wrapped btc''),
          Get (CoingeckoSearch ''wbtc''), Get (CoingeckoSearch ''wrapped-btc''),
          Get (EthplorerSearch ''BTC'')])
   \<and> get_crypto_price (constant_provider (plain_response 503 (Inl []))) ''BTC'' ''eth'' []
     = (Inr (JObj [(''error'', JStr ''Contract address not found for token BTC on chain eth. Moralis data unavailable.'')]),
        [Get (CoingeckoSearch ''btc''), Get (CoingeckoSearch ''wrapped btc''),
          Get (CoingeckoSearch ''wbtc''), Get (CoingeckoSearch ''wrapped-btc''),
          Get (EthplorerSearch ''BTC'')])
   \<and> get_crypto_metadata (constant_provider (plain_response 503 (Inl []))) ''BTC'' ''eth'' []
     = (Inr (JObj [(''error'', JStr ''Unable to retrieve contract address for token BTC on chain eth'')]),
        [Get (CoingeckoSearch ''btc''), Get (CoingeckoSearch ''wrapped btc''),
          Get (CoingeckoSearch ''wbtc''), Get (CoingeckoSearch ''wrapped-btc''),
          Get (EthplorerSearch ''BTC'')])"
  using down_resolution absent_contract_gates_pricing [OF down_resolution] by simp

section \<open>The report generator on an error result\<close>

lemma sol_upper: "upper ''SOL'' = ''SOL''"
  by (simp add: case_defs)

text \<open>
  C6. For the symbol "SOL", whatever the providers do, \<^verbatim>\<open>get_crypto_price\<close> returns
  an error result without sending a request, and \<^verbatim>\<open>generate_crypto_report\<close> then
  raises \<^verbatim>\<open>KeyError('current_price')\<close> while it builds the prompt: the error result
  is not returned, and the text generator is not called.
\<close>

theorem report_on_error_result_raises:
  "get_crypto_price E ''SOL'' ''eth'' t
     = (Inr (JObj [(''error'', JStr ''Contract address not found for token SOL on chain eth. Moralis data unavailable.'')]), t)
   \<and> generate_crypto_report E ''SOL'' t = (Inl (KeyError (JStr ''current_price'')), t)"
proof -
  have price: "get_crypto_price E ''SOL'' ''eth'' t
     = (Inr (JObj [(''error'', JStr ''Contract address not found for token SOL on chain eth. Moralis data unavailable.'')]), t)"
    by (simp add: get_crypto_price_def get_token_contract_def sol_upper)
  have "generate_crypto_report E ''SOL'' t = (Inl (KeyError (JStr ''current_price'')), t)"
    unfolding generate_crypto_report_def by (simp add: io_bind_Inr [where m = "get_crypto_price E ''SOL'' ''eth''", OF price])
  with price show ?thesis by simp
qed

section \<open>Exceptions of the search stage\<close>

text \<open>
  C8. When the search provider answers 200 with a body that is not JSON, the
  \<^verbatim>\<open>JSONDecodeError\<close> of \<^verbatim>\<open>get_token_id\<close> leaves \<^verbatim>\<open>get_token_contract\<close>,
  \<^verbatim>\<open>get_crypto_price\<close> and \<^verbatim>\<open>get_crypto_metadata\<close> as an exception after the
  first request; when no response arrives, the transport exception leaves
  \<^verbatim>\<open>get_token_contract\<close> the same way.
\<close>

theorem resolver_exceptions_escape:
  "get_token_contract (constant_provider (plain_response 200 (Inl ''Expecting value''))) ''BTC'' ''eth'' []
     = (Inl (JSONDecodeError ''Expecting value''), [Get (CoingeckoSearch ''btc'')])
   \<and> get_crypto_price (constant_provider (plain_response 200 (Inl ''Expecting value''))) ''BTC'' ''eth'' []
     = (Inl (JSONDecodeError ''Expecting value''), [Get (CoingeckoSearch ''btc'')])
   \<and> get_crypto_metadata (constant_provider (plain_response 200 (Inl ''Expecting value''))) ''BTC'' ''eth'' []
     = (Inl (JSONDecodeError ''Expecting value''), [Get (CoingeckoSearch ''btc'')])
   \<and> get_token_contract unreachable_provider ''BTC'' ''eth'' []
     = (Inl TransportError, [Get (CoingeckoSearch ''btc'')])"
  by (simp add: get_crypto_price_def get_crypto_metadata_def run_defs constant_provider_def
        unreachable_provider_def plain_response_def case_defs)

section \<open>Records built from a pricing response\<close>

lemma eth_upper: "upper ''ETH'' = ''ETH''"
  by (simp add: case_defs)

lemma str_int_201: "str_int 201 = ''201''"
  by (simp add: str_int_def)

text \<open>
  C7, as stated, fails: a pricing response with status 201 and a JSON object as body
  gives the error result "Moralis API error. Code: 201", and a response with status 200
  whose body is the JSON list \<^verbatim>\<open>[]\<close> makes \<^verbatim>\<open>get_crypto_price\<close> raise
  \<^verbatim>\<open>AttributeError\<close>.
\<close>

theorem price_record_status_counterexample:
  "get_crypto_price (constant_provider (plain_response 201 (Inr price_payload))) ''ETH'' ''eth'' []
     = (Inr (JObj [(''error'', JStr ''Moralis API error. Code: 201''), (''response'', JStr [])]),
        [Get (MoralisPrice (JStr weth_address) ''eth'')])
   \<and> get_crypto_price (constant_provider (plain_response 200 (Inr (JArr [])))) ''ETH'' ''eth'' []
     = (Inl (AttributeError ''list'' ''get''), [Get (MoralisPrice (JStr weth_address) ''eth'')])"
  by (simp add: get_crypto_price_def get_token_contract_def eth_upper io_bind_def http_get_def
        constant_provider_def plain_response_def weth_address_def str_int_201)

text \<open>
  C7, amended. When the pipeline resolves a truthy address and the pricing provider
  answers with status 200 and a JSON object as body, \<^verbatim>\<open>get_crypto_price\<close> returns
  the record of nine entries below: the symbol, six values read from the payload with
  "N/A" as the default, the source "Moralis" and the payload itself. A key that the payload
  does not have gives "N/A".
\<close>

theorem price_record_normalised:
  assumes "get_token_contract E symbol chain t = (Inr a, t1)" and "truthy a"
    and "http E t1 (MoralisPrice a chain) = Some r"
    and "status_code r = 200" and "resp_json r = Inr (JObj d)"
  shows "get_crypto_price E symbol chain t
           = (Inr (JObj
                [(''symbol'', JStr symbol),
                 (''current_price'', dict_get d ''usdPrice'' (JStr ''N/A'')),
                 (''price_change_24h'', dict_get d ''priceChange'' (JStr ''N/A'')),
                 (''price_change_percent'', dict_get d ''priceChangePercent'' (JStr ''N/A'')),
                 (''high_24h'', dict_get d ''highPrice'' (JStr ''N/A'')),
                 (''low_24h'', dict_get d ''lowPrice'' (JStr ''N/A'')),
                 (''volume'', dict_get d ''volume'' (JStr ''N/A'')),
                 (''source'', JStr ''Moralis''),
                 (''raw_response'', JObj d)]),
              t1 @ [Get (MoralisPrice a chain)])
       \<and> (\<forall>k. map_of d k = None \<longrightarrow> dict_get d k (JStr ''N/A'') = JStr ''N/A'')"
  using assms
  by (simp add: get_crypto_price_def io_bind_Inr [of "get_token_contract E symbol chain"]
        bind_http_get_Some dict_get_def)

theorem price_record_normalised_witness:
  "get_crypto_price (constant_provider (plain_response 200 (Inr price_payload))) ''ETH'' ''eth'' []
     = (Inr (JObj
          [(''symbol'', JStr ''ETH''),
           (''current_price'', JInt 65000),
           (''price_change_24h'', JStr ''N/A''),
           (''price_change_percent'', JFloat 2.5),
           (''high_24h'', JStr ''N/A''),
           (''low_24h'', JStr ''N/A''),
           (''volume'', JStr ''N/A''),
           (''source'', JStr ''Moralis''),
           (''raw_response'', price_payload)]),
        [Get (MoralisPrice (JStr weth_address) ''eth'')])"
proof -
  have res: "get_token_contract (constant_provider (plain_response 200 (Inr price_payload))) ''ETH'' ''eth'' []
          = (Inr (JStr weth_address), [])"
    by (simp add: get_token_contract_def eth_upper)
  have tr: "truthy (JStr weth_address)"
    by (simp add: weth_address_def)
  have resp: "http (constant_provider (plain_response 200 (Inr price_payload))) [] (MoralisPrice (JStr weth_address) ''eth'')
          = Some (plain_response 200 (Inr price_payload))"
    by (simp add: constant_provider_def)
  have st: "status_code (plain_response 200 (Inr price_payload)) = 200"
    by (simp add: plain_response_def)
  have body: "resp_json (plain_response 200 (Inr price_payload))
      = Inr (JObj [(''usdPrice'', JInt 65000), (''priceChangePercent'', JFloat 2.5)])"
    by (simp add: plain_response_def price_payload_def)
  show ?thesis
    using price_record_normalised [OF res tr resp st body]
    by (simp add: dict_get_def price_payload_def)
qed

text \<open>
  C10, as stated, fails: to a pricing response with status 201 whose body is a JSON
  object without \<^verbatim>\<open>tokenAddress\<close>, \<^verbatim>\<open>get_crypto_metadata\<close> answers with
  "Moralis API error. Code: 201", and to a response with status 200 whose body is the JSON
  list \<^verbatim>\<open>[]\<close> with "JSON processing error: ...", not with "Contract address not found".
\<close>

theorem metadata_status_counterexample:
  "get_crypto_metadata (constant_provider (plain_response 201 (Inr price_payload))) ''ETH'' ''eth'' []
     = (Inr (JObj [(''error'', JStr ''Moralis API error. Code: 201''), (''response'', JStr [])]),
        [Get (MoralisPrice (JStr weth_address) ''eth'')])
   \<and> get_crypto_metadata (constant_provider (plain_response 200 (Inr (JArr [])))) ''ETH'' ''eth'' []
     = (Inr (JObj [(''error'', JStr (''JSON processing error: '' @ str_exception (AttributeError ''list'' ''get'')))]),
        [Get (MoralisPrice (JStr weth_address) ''eth'')])"
  by (simp add: get_crypto_metadata_def get_token_contract_def eth_upper io_bind_def io_try_def http_get_def
        constant_provider_def plain_response_def weth_address_def str_int_201 response_json_def
        metadata_fields_def)

lemma build_result_obj:
  "build_result (JObj d) ks = Inr (map (\<lambda>k. (k, dict_get d k JNull)) ks)"
  by (induction ks) simp_all

text \<open>
  C10, amended. When the pipeline resolves a truthy address and the pricing provider
  answers with status 200 and a JSON object as body, \<^verbatim>\<open>get_crypto_metadata\<close> returns
  the record of the nine metadata fields if the payload's \<^verbatim>\<open>tokenAddress\<close> is truthy,
  and otherwise the error result "Contract address not found", whatever the other fields
  hold. An absent \<^verbatim>\<open>tokenAddress\<close> is not truthy.
\<close>

theorem metadata_needs_token_address:
  assumes "get_token_contract E symbol chain t = (Inr a, t1)" and "truthy a"
    and "http E t1 (MoralisPrice a chain) = Some r"
    and "status_code r = 200" and "resp_json r = Inr (JObj d)"
  shows "get_crypto_metadata E symbol chain t
           = (Inr (if truthy (dict_get d ''tokenAddress'' JNull)
                   then JObj (map (\<lambda>k. (k, dict_get d k JNull)) metadata_fields)
                   else JObj [(''error'', JStr ''Contract address not found'')]),
              t1 @ [Get (MoralisPrice a chain)])
       \<and> (map_of d ''tokenAddress'' = None \<longrightarrow> \<not> truthy (dict_get d ''tokenAddress'' JNull))"
proof -
  let ?t2 = "t1 @ [Get (MoralisPrice a chain)]"
  have addr: "map_of (map (\<lambda>k. (k, dict_get d k JNull)) metadata_fields) ''tokenAddress''
                = Some (dict_get d ''tokenAddress'' JNull)"
    by (simp add: metadata_fields_def)
  have body: "io_try
               (io_bind (io_lift (response_json r)) (\<lambda>data.
                io_bind (io_lift (build_result data metadata_fields)) (\<lambda>result.
                io_bind (io_lift (subscript_key (JObj result) ''tokenAddress'')) (\<lambda>token_address.
                  if truthy token_address then io_return (JObj result)
                  else io_return (JObj [(''error'', JStr ''Contract address not found'')])))))
               h ?t2
         = (Inr (if truthy (dict_get d ''tokenAddress'' JNull)
                   then JObj (map (\<lambda>k. (k, dict_get d k JNull)) metadata_fields)
                   else JObj [(''error'', JStr ''Contract address not found'')]), ?t2)" for h
    using assms(5) by (simp add: io_try_def response_json_def build_result_obj addr)
  have "get_crypto_metadata E symbol chain t
           = (Inr (if truthy (dict_get d ''tokenAddress'' JNull)
                   then JObj (map (\<lambda>k. (k, dict_get d k JNull)) metadata_fields)
                   else JObj [(''error'', JStr ''Contract address not found'')]), ?t2)"
    unfolding get_crypto_metadata_def
    by (simp only: io_bind_Inr [where m = "get_token_contract E symbol chain", OF assms(1)]
          assms(2) assms(4) bind_http_get_Some [OF assms(3)] body simp_thms if_True if_False)
  moreover have "map_of d ''tokenAddress'' = None \<longrightarrow> \<not> truthy (dict_get d ''tokenAddress'' JNull)"
    by (simp add: dict_get_def)
  ultimately show ?thesis by simp
qed

theorem metadata_needs_token_address_witness:
  "get_crypto_metadata (constant_provider (plain_response 200 (Inr price_payload))) ''ETH'' ''eth'' []
     = (Inr (JObj [(''error'', JStr ''Contract address not found'')]),
        [Get (MoralisPrice (JStr weth_address) ''eth'')])
   \<and> get_crypto_metadata (constant_provider (plain_response 200 (Inr metadata_payload))) ''ETH'' ''eth'' []
     = (Inr (JObj
          [(''tokenName'', JStr ''Wrapped Ether''),
           (''tokenSymbol'', JNull),
           (''tokenLogo'', JNull),
           (''tokenDecimals'', JNull),
           (''nativePrice'', JNull),
           (''usdPrice'', JFloat 2.5),
           (''exchangeName'', JNull),
           (''exchangeAddress'', JNull),
           (''tokenAddress'', JStr ''0xc02aaa39b223fe8d0a0e5c4f27ead9083c756cc2'')]),
        [Get (MoralisPrice (JStr weth_address) ''eth'')])"
proof -
  have tr: "truthy (JStr weth_address)"
    by (simp add: weth_address_def)
  have res: "get_token_contract (constant_provider r) ''ETH'' ''eth'' [] = (Inr (JStr weth_address), [])" for r
    by (simp add: get_token_contract_def eth_upper)
  have resp: "http (constant_provider r) [] (MoralisPrice (JStr weth_address) ''eth'') = Some r" for r
    by (simp add: constant_provider_def)
  have st: "status_code (plain_response 200 b) = 200" for b
    by (simp add: plain_response_def)
  have body1: "resp_json (plain_response 200 (Inr price_payload))
      = Inr (JObj [(''usdPrice'', JInt 65000), (''priceChangePercent'', JFloat 2.5)])"
    by (simp add: plain_response_def price_payload_def)
  have body2: "resp_json (plain_response 200 (Inr metadata_payload))
      = Inr (JObj [(''tokenName'', JStr ''Wrapped Ether''), (''usdPrice'', JFloat 2.5),
           (''tokenAddress'', JStr ''0xc02aaa39b223fe8d0a0e5c4f27ead9083c756cc2'')])"
    by (simp add: plain_response_def metadata_payload_def)
  show ?thesis
    using metadata_needs_token_address [OF res tr resp st body1]
      metadata_needs_token_address [OF res tr resp st body2]
    by (simp add: dict_get_def metadata_fields_def)
qed

section \<open>The fallback chain\<close>

subsection \<open>What a computation returns\<close>



lemma returns_raise: "returns Q (io_raise e)"
  by (simp add: returns_def)







subsection \<open>Requests of one resolution attempt\<close>

lemma loop_no_429:
  assumes "\<not> answers_429 E t (CoingeckoSearch (lower symbol))"
  shows "snd (get_token_id_loop E symbol (Suc n) t) = t @ [Get (CoingeckoSearch (lower symbol))]"
proof (cases "http E t (CoingeckoSearch (lower symbol))")
  case None
  then show ?thesis by (simp add: bind_http_get_None)
next
  case (Some r)
  with assms have "status_code r \<noteq> 429" by (simp add: answers_429_def)
  then show ?thesis
    by (simp add: bind_http_get_Some [OF Some]) (auto intro!: emits_False emits_intros)
qed

lemma get_contract_trace:
  "snd (get_contract_from_coingecko E token_id query chain t)
     = (if truthy token_id then t @ [Get (CoingeckoCoin token_id)] else t)"
proof (cases "truthy token_id")
  case False
  then show ?thesis by (simp add: get_contract_from_coingecko_def)
next
  case True
  show ?thesis
  proof (cases "http E t (CoingeckoCoin token_id)")
    case None
    with True show ?thesis by (simp add: get_contract_from_coingecko_def bind_http_get_None)
  next
    case (Some r)
    with True show ?thesis
      by (simp add: get_contract_from_coingecko_def bind_http_get_Some [OF Some])
         (auto intro!: emits_False emits_intros)
  qed
qed

lemma get_contract_truthy:
  "get_contract_from_coingecko E token_id query chain t = (Inr a, t') \<Longrightarrow> truthy a \<Longrightarrow> truthy token_id"
  by (cases "truthy token_id") (auto simp: get_contract_from_coingecko_def)

lemma count_replicate_pair:
  "count P (concat (replicate k [a, b])) = (if P a then k else 0) + (if P b then k else 0)"
proof (induction k)
  case 0
  then show ?case by (simp add: count_def)
next
  case (Suc k)
  have "count P (concat (replicate (Suc k) [a, b])) = count P [a, b] + count P (concat (replicate k [a, b]))"
    by (simp add: count_def)
  also have "count P [a, b] = (if P a then 1 else 0) + (if P b then 1 else 0)"
    by (simp add: count_def)
  finally show ?case
    using Suc by simp
qed

lemma count_rounds:
  "count P (concat (replicate k [Get q, Sleep 2]) @ (if k < 3 then [Get q] else []))
     = (if P (Get q) then k + (if k < 3 then 1 else 0) else 0) + (if P (Sleep 2) then k else 0)"
  unfolding count_append count_replicate_pair by (simp add: count_def)

lemma get_token_id_counts:
  assumes "get_token_id E query t = (r, s)"
  shows "count is_search t + 1 \<le> count is_search s" and "count is_search s \<le> count is_search t + 3"
    and "count is_coin s = count is_coin t" and "count is_ethplorer s = count is_ethplorer t"
    and "never_rate_limited E \<Longrightarrow> count is_search s = count is_search t + 1"
proof -
  let ?q = "CoingeckoSearch (lower query)"
  obtain k where k: "k \<le> 3"
    "s = t @ concat (replicate k [Get ?q, Sleep 2]) @ (if k < 3 then [Get ?q] else [])"
    using get_token_id_loop_trace [of 3 E query t] assms
    by (auto simp: get_token_id_def retries_def)
  have c: "count P s = count P t + ((if P (Get ?q) then k + (if k < 3 then 1 else 0) else 0)
              + (if P (Sleep 2) then k else 0))" for P
    unfolding k(2) by (simp only: count_append [of P t] count_rounds)
  show "count is_search t + 1 \<le> count is_search s" using k(1) by (simp add: c)
  show "count is_search s \<le> count is_search t + 3" using k(1) by (simp add: c)
  show "count is_coin s = count is_coin t" by (simp add: c)
  show "count is_ethplorer s = count is_ethplorer t" by (simp add: c)
  show "count is_search s = count is_search t + 1" if "never_rate_limited E"
  proof -
    from that have "\<not> answers_429 E t ?q"
      by (auto simp: never_rate_limited_def answers_429_def split: option.splits)
    from loop_no_429 [OF this, of 2] assms have "s = t @ [Get ?q]"
      by (simp add: get_token_id_def retries_def numeral_3_eq_3)
    then show ?thesis by (simp add: count_append count_def)
  qed
qed

lemma get_contract_counts:
  assumes "get_contract_from_coingecko E token_id query chain s = (r, t')"
  shows "count is_search t' = count is_search s" and "count is_ethplorer t' = count is_ethplorer s"
    and "count is_coin s \<le> count is_coin t'" and "count is_coin t' \<le> count is_coin s + 1"
    and "r = Inr a \<Longrightarrow> truthy a \<Longrightarrow> count is_coin t' = count is_coin s + 1"
proof -
  have t': "t' = (if truthy token_id then s @ [Get (CoingeckoCoin token_id)] else s)"
    using get_contract_trace [of E token_id query chain s] assms by simp
  show "count is_search t' = count is_search s" "count is_ethplorer t' = count is_ethplorer s"
    "count is_coin s \<le> count is_coin t'" "count is_coin t' \<le> count is_coin s + 1"
    by (simp_all add: t' count_def)
  show "count is_coin t' = count is_coin s + 1" if "r = Inr a" "truthy a"
    using get_contract_truthy [of E token_id query chain s a t'] assms that
    by (simp add: t' count_def)
qed

lemma lookup_queryD:
  assumes "lookup_query E query chain t = (Inr a, t')"
  obtains i s where "get_token_id E query t = (Inr i, s)"
    and "get_contract_from_coingecko E i query chain s = (Inr a, t')"
  using assms unfolding lookup_query_def io_bind_def
  by (auto split: prod.splits sum.splits)

lemma lookup_query_counts:
  assumes "lookup_query E query chain t = (Inr a, t')"
  shows "count is_search t + 1 \<le> count is_search t'" and "count is_search t' \<le> count is_search t + 3"
    and "count is_coin t \<le> count is_coin t'" and "count is_coin t' \<le> count is_coin t + 1"
    and "count is_ethplorer t' = count is_ethplorer t"
    and "truthy a \<Longrightarrow> count is_coin t' = count is_coin t + 1"
    and "never_rate_limited E \<Longrightarrow> count is_search t' = count is_search t + 1"
proof -
  from assms obtain i s where i: "get_token_id E query t = (Inr i, s)"
    and c: "get_contract_from_coingecko E i query chain s = (Inr a, t')"
    by (rule lookup_queryD)
  note a = get_token_id_counts [OF i] and b = get_contract_counts [OF c]
  show "count is_search t + 1 \<le> count is_search t'" using a(1) b(1) by simp
  show "count is_search t' \<le> count is_search t + 3" using a(2) b(1) by simp
  show "count is_coin t \<le> count is_coin t'" using a(3) b(3) by simp
  show "count is_coin t' \<le> count is_coin t + 1" using a(3) b(4) by simp
  show "count is_ethplorer t' = count is_ethplorer t" using a(4) b(2) by simp
  show "count is_coin t' = count is_coin t + 1" if "truthy a" using a(3) b(5) [OF refl that] by simp
  show "count is_search t' = count is_search t + 1" if "never_rate_limited E" using a(5) [OF that] b(1) by simp
qed

subsection \<open>The example provider\<close>

lemma resolves_only_lookup:
  assumes "lower q \<noteq> []"
  shows "lookup_query (resolves_only g) q ''eth'' t
    = (Inr (if lower q = g then JStr wbtc_address else if lower q = ''btc'' then JNull else JStr []),
       t @ [Get (CoingeckoSearch (lower q)), Get (CoingeckoCoin (JStr (lower q)))])"
  using assms
  by (simp add: lookup_query_def get_token_id_def retries_def numeral_3_eq_3
        get_contract_from_coingecko_def io_bind_def http_get_def response_json_def dict_get_def
        resolves_only_def plain_response_def platform_key_def PLATFORM_MAPPING_def)

lemma btc_lower:
  "lower ''BTC'' = ''btc''" "lower ''wrapped BTC'' = ''wrapped btc''"
  "lower ''wbtc'' = ''wbtc''" "lower ''wrapped-btc'' = ''wrapped-btc''"
  by (simp_all add: case_defs)

lemma btc_upper: "upper ''BTC'' = ''BTC''"
  by (simp add: case_defs)

subsection \<open>Wrapped variants\<close>

lemma pipeline_after_primary:
  assumes "upper symbol \<notin> set [''ETH'', ''ETHEREUM'']"
    and "upper symbol \<notin> set [''SOL'', ''SOLANA'', ''XLM'', ''STELLAR'']"
    and "lookup_query E symbol chain t = (Inr a0, t1)" and "\<not> truthy a0"
  shows "get_token_contract E symbol chain t
           = wrapped_loop E symbol chain
               [''wrapped '' @ symbol, ''w'' @ lower symbol, ''wrapped-'' @ lower symbol] t1"
  unfolding get_token_contract_def wrapped_variants_def
  using assms(1,2,4)
  by (simp only: if_False io_bind_Inr [where m = "lookup_query E symbol chain", OF assms(3)])

lemma wrapped_loop_step:
  assumes "lookup_query E query chain t = (Inr a, t1)"
  shows "wrapped_loop E symbol chain (query # rest) t
           = (if truthy a then (Inr a, t1) else wrapped_loop E symbol chain rest t1)"
  by (simp add: io_bind_Inr [where m = "lookup_query E query chain", OF assms])

lemma search_queries_append: "search_queries (a @ b) = search_queries a @ search_queries b"
  by (simp add: search_queries_def)

lemma coin_ids_append: "coin_ids (a @ b) = coin_ids a @ coin_ids b"
  by (simp add: coin_ids_def)

lemma search_queries_rounds:
  "search_queries (concat (replicate k [Get (CoingeckoSearch q), Sleep 2])) = replicate k q"
  by (induction k) (simp_all add: search_queries_def)

lemma coin_ids_rounds:
  "coin_ids (concat (replicate k [Get (CoingeckoSearch q), Sleep 2])) = []"
  by (induction k) (simp_all add: coin_ids_def)

lemma count_search_queries: "count is_search t = length (search_queries t)"
proof (induction t)
  case Nil
  then show ?case by (simp add: count_def search_queries_def)
next
  case (Cons e t)
  have "length (search_query e) = (if is_search e then 1 else 0)"
    by (cases e rule: search_query.cases) simp_all
  with Cons show ?case
    by (simp add: count_def search_queries_def)
qed

lemma count_coin_ids: "count is_coin t = length (coin_ids t)"
proof (induction t)
  case Nil
  then show ?case by (simp add: count_def coin_ids_def)
next
  case (Cons e t)
  have "length (coin_id e) = (if is_coin e then 1 else 0)"
    by (cases e rule: coin_id.cases) simp_all
  with Cons show ?case
    by (simp add: count_def coin_ids_def)
qed

lemma get_token_id_requests:
  assumes "get_token_id E query t = (r, s)"
  shows "\<exists>n. 1 \<le> n \<and> n \<le> 3 \<and> (never_rate_limited E \<longrightarrow> n = 1)
           \<and> search_queries s = search_queries t @ replicate n (lower query)"
    and "coin_ids s = coin_ids t"
proof -
  let ?q = "CoingeckoSearch (lower query)"
  obtain k where k: "k \<le> 3"
    "s = t @ concat (replicate k [Get ?q, Sleep 2]) @ (if k < 3 then [Get ?q] else [])"
    using get_token_id_loop_trace [of 3 E query t] assms
    by (auto simp: get_token_id_def retries_def)
  show "coin_ids s = coin_ids t"
    unfolding k(2) by (simp add: coin_ids_append coin_ids_rounds) (simp add: coin_ids_def)
  show "\<exists>n. 1 \<le> n \<and> n \<le> 3 \<and> (never_rate_limited E \<longrightarrow> n = 1)
           \<and> search_queries s = search_queries t @ replicate n (lower query)"
  proof (cases "never_rate_limited E")
    case True
    then have "\<not> answers_429 E t ?q"
      by (auto simp: never_rate_limited_def answers_429_def split: option.splits)
    from loop_no_429 [OF this, of 2] assms have "s = t @ [Get ?q]"
      by (simp add: get_token_id_def retries_def numeral_3_eq_3)
    then have "search_queries s = search_queries t @ replicate 1 (lower query)"
      by (simp add: search_queries_def)
    then show ?thesis by (intro exI [of _ 1]) simp
  next
    case False
    have "search_queries s
            = search_queries t @ replicate (k + (if k < 3 then 1 else 0)) (lower query)"
      unfolding k(2)
      by (simp add: search_queries_append search_queries_rounds replicate_add)
         (simp add: search_queries_def)
    with k(1) False show ?thesis
      by (intro exI [of _ "k + (if k < 3 then 1 else 0)"]) simp
  qed
qed

lemma get_contract_requests:
  assumes "get_contract_from_coingecko E token_id query chain s = (r, t')"
  shows "search_queries t' = search_queries s"
    and "coin_ids t' = coin_ids s @ (if truthy token_id then [token_id] else [])"
proof -
  have t': "t' = (if truthy token_id then s @ [Get (CoingeckoCoin token_id)] else s)"
    using get_contract_trace [of E token_id query chain s] assms by simp
  show "search_queries t' = search_queries s"
    by (simp add: t' search_queries_def)
  show "coin_ids t' = coin_ids s @ (if truthy token_id then [token_id] else [])"
    by (simp add: t' coin_ids_def)
qed

lemma lookup_queryI:
  assumes "get_token_id E query t = (Inr i, s)"
    and "get_contract_from_coingecko E i query chain s = (Inr a, t')"
  shows "lookup_query E query chain t = (Inr a, t')"
  unfolding lookup_query_def
  by (simp add: io_bind_Inr [where m = "get_token_id E query", OF assms(1)] assms(2))

text \<open>
  C1. Let the symbol be outside the native and unsupported sets and let the primary
  lookup (the Token ID Resolver on the symbol, then the Contract Resolver on its result)
  return a falsy address. Then the pipeline tries "wrapped {symbol}",
  "w{lowercased symbol}" and "wrapped-{lowercased symbol}" in this order, each from the
  trace the attempt before left, and returns the first truthy address; after a third
  falsy one it goes on to the last resort. When the first wrapped variant fails too and
  the second succeeds, the pipeline returns the second variant's address, and its run is
  the Token ID Resolver and the Contract Resolver for the symbol, the two of them for the
  first variant, and then the successful lookup: 2 token-id lookups and 2 contract
  lookups come before the success. Their searches are for the lowercased symbol and the
  lowercased first variant, in this order, each sent once when the provider never
  answers 429 and at most 3 times otherwise: 2 searches without rate limiting. The
  Contract Resolver sends one request for each token id it is given that is not absent:
  2 requests when both searches found a token. No request goes to the last-resort
  provider.
\<close>

theorem wrapped_variant_fallback:
  assumes "upper symbol \<notin> set [''ETH'', ''ETHEREUM'']"
    and "upper symbol \<notin> set [''SOL'', ''SOLANA'', ''XLM'', ''STELLAR'']"
    and "get_token_id E symbol t = (Inr i0, s0)"
    and "get_contract_from_coingecko E i0 symbol chain s0 = (Inr a0, t1)"
    and "\<not> truthy a0"
  shows
    "(lookup_query E (''wrapped '' @ symbol) chain t1 = (Inr a1, t2) \<and> truthy a1 \<longrightarrow>
        get_token_contract E symbol chain t = (Inr a1, t2))
   \<and> (get_token_id E (''wrapped '' @ symbol) t1 = (Inr i1, s1)
        \<and> get_contract_from_coingecko E i1 (''wrapped '' @ symbol) chain s1 = (Inr a1, t2)
        \<and> \<not> truthy a1
        \<and> lookup_query E (''w'' @ lower symbol) chain t2 = (Inr a2, t3) \<and> truthy a2 \<longrightarrow>
        get_token_contract E symbol chain t = (Inr a2, t3)
        \<and> get_token_contract E symbol chain t
            = io_bind (get_token_id E symbol) (\<lambda>j0.
              io_bind (get_contract_from_coingecko E j0 symbol chain) (\<lambda>b0.
              io_bind (get_token_id E (''wrapped '' @ symbol)) (\<lambda>j1.
              io_bind (get_contract_from_coingecko E j1 (''wrapped '' @ symbol) chain) (\<lambda>b1.
                lookup_query E (''w'' @ lower symbol) chain)))) t
        \<and> (\<exists>n0 n1. 1 \<le> n0 \<and> n0 \<le> 3 \<and> 1 \<le> n1 \<and> n1 \<le> 3
              \<and> (never_rate_limited E \<longrightarrow> n0 = 1 \<and> n1 = 1)
              \<and> search_queries t2 = search_queries t @ replicate n0 (lower symbol)
                    @ replicate n1 (lower (''wrapped '' @ symbol)))
        \<and> coin_ids t2 = coin_ids t @ (if truthy i0 then [i0] else [])
                                     @ (if truthy i1 then [i1] else [])
        \<and> (never_rate_limited E \<longrightarrow> count is_search t2 = count is_search t + 2)
        \<and> (truthy i0 \<and> truthy i1 \<longrightarrow> count is_coin t2 = count is_coin t + 2)
        \<and> count is_ethplorer t3 = count is_ethplorer t)
   \<and> (lookup_query E (''wrapped '' @ symbol) chain t1 = (Inr a1, t2) \<and> \<not> truthy a1
        \<and> lookup_query E (''w'' @ lower symbol) chain t2 = (Inr a2, t3) \<and> \<not> truthy a2
        \<and> lookup_query E (''wrapped-'' @ lower symbol) chain t3 = (Inr a3, t4) \<longrightarrow>
        get_token_contract E symbol chain t
          = (if truthy a3 then (Inr a3, t4) else ethplorer_fallback E symbol t4))"
proof -
  have l0: "lookup_query E symbol chain t = (Inr a0, t1)"
    using assms(3,4) by (rule lookup_queryI)
  note start = pipeline_after_primary [OF assms(1,2) l0 assms(5)]
  have first: "get_token_contract E symbol chain t = (Inr a1, t2)"
    if "lookup_query E (''wrapped '' @ symbol) chain t1 = (Inr a1, t2) \<and> truthy a1"
    using that
    by (simp add: start wrapped_loop_step [where a = a1 and ?t1.0 = t2] del: wrapped_loop.simps)
  have third: "get_token_contract E symbol chain t
          = (if truthy a3 then (Inr a3, t4) else ethplorer_fallback E symbol t4)"
    if "lookup_query E (''wrapped '' @ symbol) chain t1 = (Inr a1, t2) \<and> \<not> truthy a1
        \<and> lookup_query E (''w'' @ lower symbol) chain t2 = (Inr a2, t3) \<and> \<not> truthy a2
        \<and> lookup_query E (''wrapped-'' @ lower symbol) chain t3 = (Inr a3, t4)"
    using that
    by (simp add: start wrapped_loop_step [where a = a1 and ?t1.0 = t2]
          wrapped_loop_step [where a = a2 and ?t1.0 = t3]
          wrapped_loop_step [where a = a3 and ?t1.0 = t4] del: wrapped_loop.simps(2))
  have second:
    "get_token_contract E symbol chain t = (Inr a2, t3)
        \<and> get_token_contract E symbol chain t
            = io_bind (get_token_id E symbol) (\<lambda>j0.
              io_bind (get_contract_from_coingecko E j0 symbol chain) (\<lambda>b0.
              io_bind (get_token_id E (''wrapped '' @ symbol)) (\<lambda>j1.
              io_bind (get_contract_from_coingecko E j1 (''wrapped '' @ symbol) chain) (\<lambda>b1.
                lookup_query E (''w'' @ lower symbol) chain)))) t
        \<and> (\<exists>n0 n1. 1 \<le> n0 \<and> n0 \<le> 3 \<and> 1 \<le> n1 \<and> n1 \<le> 3
              \<and> (never_rate_limited E \<longrightarrow> n0 = 1 \<and> n1 = 1)
              \<and> search_queries t2 = search_queries t @ replicate n0 (lower symbol)
                    @ replicate n1 (lower (''wrapped '' @ symbol)))
        \<and> coin_ids t2 = coin_ids t @ (if truthy i0 then [i0] else [])
                                     @ (if truthy i1 then [i1] else [])
        \<and> (never_rate_limited E \<longrightarrow> count is_search t2 = count is_search t + 2)
        \<and> (truthy i0 \<and> truthy i1 \<longrightarrow> count is_coin t2 = count is_coin t + 2)
        \<and> count is_ethplorer t3 = count is_ethplorer t"
    if h: "get_token_id E (''wrapped '' @ symbol) t1 = (Inr i1, s1)
        \<and> get_contract_from_coingecko E i1 (''wrapped '' @ symbol) chain s1 = (Inr a1, t2)
        \<and> \<not> truthy a1
        \<and> lookup_query E (''w'' @ lower symbol) chain t2 = (Inr a2, t3) \<and> truthy a2"
  proof -
    from h have id1: "get_token_id E (''wrapped '' @ symbol) t1 = (Inr i1, s1)"
      and c1: "get_contract_from_coingecko E i1 (''wrapped '' @ symbol) chain s1 = (Inr a1, t2)"
      and f1: "\<not> truthy a1"
      and l2: "lookup_query E (''w'' @ lower symbol) chain t2 = (Inr a2, t3)"
      and tr: "truthy a2"
      by simp_all
    have l1: "lookup_query E (''wrapped '' @ symbol) chain t1 = (Inr a1, t2)"
      using id1 c1 by (rule lookup_queryI)
    have result: "get_token_contract E symbol chain t = (Inr a2, t3)"
      using l1 l2 f1 tr
      by (simp add: start wrapped_loop_step [where a = a1 and ?t1.0 = t2]
            wrapped_loop_step [where a = a2 and ?t1.0 = t3] del: wrapped_loop.simps)
    have calls: "io_bind (get_token_id E symbol) (\<lambda>j0.
              io_bind (get_contract_from_coingecko E j0 symbol chain) (\<lambda>b0.
              io_bind (get_token_id E (''wrapped '' @ symbol)) (\<lambda>j1.
              io_bind (get_contract_from_coingecko E j1 (''wrapped '' @ symbol) chain) (\<lambda>b1.
                lookup_query E (''w'' @ lower symbol) chain)))) t = (Inr a2, t3)"
      by (simp only: io_bind_Inr [where m = "get_token_id E symbol", OF assms(3)]
            io_bind_Inr [where m = "get_contract_from_coingecko E i0 symbol chain", OF assms(4)]
            io_bind_Inr [where m = "get_token_id E (''wrapped '' @ symbol)", OF id1]
            io_bind_Inr [where m = "get_contract_from_coingecko E i1 (''wrapped '' @ symbol) chain", OF c1]
            l2)
    from get_token_id_requests(1) [OF assms(3)] obtain n0 where
      n0: "1 \<le> n0" "n0 \<le> 3" "never_rate_limited E \<longrightarrow> n0 = 1"
        "search_queries s0 = search_queries t @ replicate n0 (lower symbol)"
      by blast
    from get_token_id_requests(1) [OF id1] obtain n1 where
      n1: "1 \<le> n1" "n1 \<le> 3" "never_rate_limited E \<longrightarrow> n1 = 1"
        "search_queries s1 = search_queries t1 @ replicate n1 (lower (''wrapped '' @ symbol))"
      by blast
    have sq: "search_queries t2 = search_queries t @ replicate n0 (lower symbol)
                    @ replicate n1 (lower (''wrapped '' @ symbol))"
      using n0(4) n1(4) get_contract_requests(1) [OF assms(4)] get_contract_requests(1) [OF c1]
      by simp
    have ci: "coin_ids t2 = coin_ids t @ (if truthy i0 then [i0] else [])
                                     @ (if truthy i1 then [i1] else [])"
      using get_token_id_requests(2) [OF assms(3)] get_token_id_requests(2) [OF id1]
        get_contract_requests(2) [OF assms(4)] get_contract_requests(2) [OF c1]
      by simp
    have searches: "count is_search t2 = count is_search t + 2" if "never_rate_limited E"
      using that n0(3) n1(3) sq by (simp add: count_search_queries)
    have coins: "count is_coin t2 = count is_coin t + 2" if "truthy i0 \<and> truthy i1"
      using that ci by (simp add: count_coin_ids)
    have eth: "count is_ethplorer t3 = count is_ethplorer t"
      using lookup_query_counts(5) [OF l0] lookup_query_counts(5) [OF l1]
        lookup_query_counts(5) [OF l2] by simp
    from n0(1,2,3) n1(1,2,3) sq
    have ex: "\<exists>n0 n1. 1 \<le> n0 \<and> n0 \<le> 3 \<and> 1 \<le> n1 \<and> n1 \<le> 3
              \<and> (never_rate_limited E \<longrightarrow> n0 = 1 \<and> n1 = 1)
              \<and> search_queries t2 = search_queries t @ replicate n0 (lower symbol)
                    @ replicate n1 (lower (''wrapped '' @ symbol))"
      by blast
    from result calls ex ci searches coins eth show ?thesis
      by simp
  qed
  from first second third show ?thesis
    by blast
qed

lemma resolves_only_token_id:
  "get_token_id (resolves_only g) q t
     = (Inr (JStr (lower q)), t @ [Get (CoingeckoSearch (lower q))])"
  by (simp add: get_token_id_def retries_def numeral_3_eq_3 io_bind_def http_get_def
        response_json_def dict_get_def resolves_only_def plain_response_def)

lemma resolves_only_contract:
  assumes "i \<noteq> []"
  shows "get_contract_from_coingecko (resolves_only g) (JStr i) query ''eth'' t
     = (Inr (if i = g then JStr wbtc_address else if i = ''btc'' then JNull else JStr []),
        t @ [Get (CoingeckoCoin (JStr i))])"
  using assms
  by (simp add: get_contract_from_coingecko_def io_bind_def http_get_def response_json_def
        dict_get_def resolves_only_def plain_response_def platform_key_def PLATFORM_MAPPING_def)

theorem wrapped_variant_fallback_witness:
  "upper ''BTC'' \<notin> set [''ETH'', ''ETHEREUM'']
   \<and> upper ''BTC'' \<notin> set [''SOL'', ''SOLANA'', ''XLM'', ''STELLAR'']
   \<and> never_rate_limited (resolves_only ''wbtc'')
   \<and> get_token_contract (resolves_only ''wrapped btc'') ''BTC'' ''eth'' []
     = (Inr (JStr wbtc_address),
        [Get (CoingeckoSearch ''btc''), Get (CoingeckoCoin (JStr ''btc'')),
         Get (CoingeckoSearch ''wrapped btc''), Get (CoingeckoCoin (JStr ''wrapped btc''))])
   \<and> get_token_contract (resolves_only ''wbtc'') ''BTC'' ''eth'' []
     = (Inr (JStr wbtc_address),
        [Get (CoingeckoSearch ''btc''), Get (CoingeckoCoin (JStr ''btc'')),
         Get (CoingeckoSearch ''wrapped btc''), Get (CoingeckoCoin (JStr ''wrapped btc'')),
         Get (CoingeckoSearch ''wbtc''), Get (CoingeckoCoin (JStr ''wbtc''))])
   \<and> count is_search
         [Get (CoingeckoSearch ''btc''), Get (CoingeckoCoin (JStr ''btc'')),
          Get (CoingeckoSearch ''wrapped btc''), Get (CoingeckoCoin (JStr ''wrapped btc''))] = 2
   \<and> count is_coin
         [Get (CoingeckoSearch ''btc''), Get (CoingeckoCoin (JStr ''btc'')),
          Get (CoingeckoSearch ''wrapped btc''), Get (CoingeckoCoin (JStr ''wrapped btc''))] = 2
   \<and> count is_ethplorer
         [Get (CoingeckoSearch ''btc''), Get (CoingeckoCoin (JStr ''btc'')),
          Get (CoingeckoSearch ''wrapped btc''), Get (CoingeckoCoin (JStr ''wrapped btc'')),
          Get (CoingeckoSearch ''wbtc''), Get (CoingeckoCoin (JStr ''wbtc''))] = 0
   \<and> get_token_contract (resolves_only ''wrapped-btc'') ''BTC'' ''eth'' []
     = (Inr (JStr wbtc_address),
        [Get (CoingeckoSearch ''btc''), Get (CoingeckoCoin (JStr ''btc'')),
         Get (CoingeckoSearch ''wrapped btc''), Get (CoingeckoCoin (JStr ''wrapped btc'')),
         Get (CoingeckoSearch ''wbtc''), Get (CoingeckoCoin (JStr ''wbtc'')),
         Get (CoingeckoSearch ''wrapped-btc''), Get (CoingeckoCoin (JStr ''wrapped-btc''))])"
proof -
  let ?t1 = "[Get (CoingeckoSearch ''btc''), Get (CoingeckoCoin (JStr ''btc''))]"
  let ?s1 = "[Get (CoingeckoSearch ''btc''), Get (CoingeckoCoin (JStr ''btc'')),
              Get (CoingeckoSearch ''wrapped btc'')]"
  let ?t2 = "[Get (CoingeckoSearch ''btc''), Get (CoingeckoCoin (JStr ''btc'')),
              Get (CoingeckoSearch ''wrapped btc''), Get (CoingeckoCoin (JStr ''wrapped btc''))]"
  let ?t3 = "[Get (CoingeckoSearch ''btc''), Get (CoingeckoCoin (JStr ''btc'')),
              Get (CoingeckoSearch ''wrapped btc''), Get (CoingeckoCoin (JStr ''wrapped btc'')),
              Get (CoingeckoSearch ''wbtc''), Get (CoingeckoCoin (JStr ''wbtc''))]"
  let ?t4 = "[Get (CoingeckoSearch ''btc''), Get (CoingeckoCoin (JStr ''btc'')),
              Get (CoingeckoSearch ''wrapped btc''), Get (CoingeckoCoin (JStr ''wrapped btc'')),
              Get (CoingeckoSearch ''wbtc''), Get (CoingeckoCoin (JStr ''wbtc'')),
              Get (CoingeckoSearch ''wrapped-btc''), Get (CoingeckoCoin (JStr ''wrapped-btc''))]"
  have n1: "upper ''BTC'' \<notin> set [''ETH'', ''ETHEREUM'']"
    and n2: "upper ''BTC'' \<notin> set [''SOL'', ''SOLANA'', ''XLM'', ''STELLAR'']"
    by (simp_all add: btc_upper)
  have nr: "never_rate_limited (resolves_only g)" for g
    by (simp add: never_rate_limited_def resolves_only_def plain_response_def)
  have ne: "wbtc_address \<noteq> []"
    by (simp add: wbtc_address_def)
  have f0: "\<not> truthy JNull"
    by simp
  have id0: "get_token_id (resolves_only g) ''BTC'' [] = (Inr (JStr ''btc''), [Get (CoingeckoSearch ''btc'')])"
    for g
    using resolves_only_token_id [of g "''BTC''" "[]"] by (simp add: btc_lower)
  have c0: "get_contract_from_coingecko (resolves_only g) (JStr ''btc'') ''BTC'' ''eth''
              [Get (CoingeckoSearch ''btc'')] = (Inr JNull, ?t1)"
    if "g \<noteq> ''btc''" for g
    using that resolves_only_contract [of "''btc''" g "''BTC''" "[Get (CoingeckoSearch ''btc'')]"]
    by auto
  have id1: "get_token_id (resolves_only g) ''wrapped BTC'' ?t1 = (Inr (JStr ''wrapped btc''), ?s1)"
    for g
    using resolves_only_token_id [of g "''wrapped BTC''" ?t1] by (simp add: btc_lower)
  have c1: "get_contract_from_coingecko (resolves_only g) (JStr ''wrapped btc'') ''wrapped BTC'' ''eth'' ?s1
              = (Inr (if g = ''wrapped btc'' then JStr wbtc_address else JStr []), ?t2)"
    for g
    using resolves_only_contract [of "''wrapped btc''" g "''wrapped BTC''" ?s1] by auto
  have v1: "lookup_query (resolves_only g) ''wrapped BTC'' ''eth'' ?t1
      = (Inr (if g = ''wrapped btc'' then JStr wbtc_address else JStr []), ?t2)" for g
    using resolves_only_lookup [of "''wrapped BTC''" g ?t1] by (simp add: btc_lower)
  have v2: "lookup_query (resolves_only g) ''wbtc'' ''eth'' ?t2
      = (Inr (if g = ''wbtc'' then JStr wbtc_address else JStr []), ?t3)" for g
    using resolves_only_lookup [of "''wbtc''" g ?t2] by (simp add: btc_lower)
  have v3: "lookup_query (resolves_only g) ''wrapped-btc'' ''eth'' ?t3
      = (Inr (if g = ''wrapped-btc'' then JStr wbtc_address else JStr []), ?t4)" for g
    using resolves_only_lookup [of "''wrapped-btc''" g ?t3] by (simp add: btc_lower)
  have first: "get_token_contract (resolves_only ''wrapped btc'') ''BTC'' ''eth'' []
                 = (Inr (JStr wbtc_address), ?t2)"
    using wrapped_variant_fallback [OF n1 n2 id0 c0 f0,
        where g1 = "''wrapped btc''" and ?a1.0 = "JStr wbtc_address" and ?t2.0 = ?t2]
    by (simp add: v1 ne btc_lower)
  have second: "get_token_contract (resolves_only ''wbtc'') ''BTC'' ''eth'' []
                  = (Inr (JStr wbtc_address), ?t3)
      \<and> count is_search ?t2 = 2 \<and> count is_coin ?t2 = 2 \<and> count is_ethplorer ?t3 = 0"
    using wrapped_variant_fallback [OF n1 n2 id0 c0 f0,
        where g1 = "''wbtc''" and ?i1.0 = "JStr ''wrapped btc''" and ?s1.0 = ?s1
          and ?a1.0 = "JStr []" and ?t2.0 = ?t2 and ?a2.0 = "JStr wbtc_address" and ?t3.0 = ?t3]
      nr [of "''wbtc''"]
    by (simp add: id1 c1 v2 ne btc_lower count_def)
  have third: "get_token_contract (resolves_only ''wrapped-btc'') ''BTC'' ''eth'' []
                 = (Inr (JStr wbtc_address), ?t4)"
    using wrapped_variant_fallback [OF n1 n2 id0 c0 f0,
        where g1 = "''wrapped-btc''" and ?a1.0 = "JStr []" and ?t2.0 = ?t2
          and ?a2.0 = "JStr []" and ?t3.0 = ?t3 and ?a3.0 = "JStr wbtc_address" and ?t4.0 = ?t4]
    by (simp add: v1 v2 v3 ne btc_lower)
  from n1 n2 nr first second third show ?thesis
    by blast
qed

subsection \<open>Empty addresses\<close>






end
